theory Spec2Isabelle
  imports Complex_Main "HOL-Library.Multiset" "HOL-Library.Sublist" "HOL-Library.Product_Lexorder"
begin

section \<open>The dashboard of docs/app.js\<close>

text \<open>
  The file docs/app.js loads two JSON documents into a global \<open>state\<close> object, renders
  statistics, badges, a list of recommendation cards and a table of experiment rows, and
  re-renders one of the two lists when a filter tab is clicked. The model below follows
  the file function by function. The state object and the page are passed explicitly;
  an exception is a value that carries the state reached when it was thrown.
\<close>

subsection \<open>Numbers of the host language\<close>

text \<open>
  A JavaScript number is a binary64 floating point value: not a number, an infinity, or
  a finite value, which is held here as the rational it denotes exactly (the sign of zero
  is not kept: nothing in the file reads it).
\<close>

datatype jsnum = NaN | PosInf | NegInf | Fin rat

function bitlen :: "int \<Rightarrow> nat" where
  "bitlen n = (if n \<le> 0 then 0 else Suc (bitlen (n div 2)))"
  by pat_completeness auto
termination
  by (relation "measure nat") auto

declare bitlen.simps [simp del]

definition pow2 :: "int \<Rightarrow> rat" where
  "pow2 e = (if 0 \<le> e then 2 ^ nat e else 1 / 2 ^ nat (- e))"

definition roundTiesToEven :: "rat \<Rightarrow> int" where
  "roundTiesToEven x =
     (let n = \<lfloor>x\<rfloor>; r = x - of_int n
      in if r < 1 / 2 then n else if 1 / 2 < r then n + 1 else if even n then n else n + 1)"

text \<open>\<open>ilog2 a\<close> is the binary exponent of a positive rational: \<open>2 ^ k \<le> a < 2 ^ (k + 1)\<close>.\<close>

definition ilog2 :: "rat \<Rightarrow> int" where
  "ilog2 a =
     (let (p, d) = quotient_of a;
          k = int (bitlen p) - int (bitlen d)
      in if pow2 k \<le> a then k else k - 1)"

text \<open>
  Rounding of a real value to the nearest binary64 value, ties to even: 53 bits of
  significand, the least exponent -1074 (subnormal values), overflow to infinity from
  \<open>2 ^ 1024\<close> on.
\<close>

definition fl_pos :: "rat \<Rightarrow> rat option" where
  "fl_pos a =
     (let e = max (ilog2 a - 52) (- 1074);
          v = of_int (roundTiesToEven (a / pow2 e)) * pow2 e
      in if 2 ^ 1024 \<le> v then None else Some v)"

definition fl :: "rat \<Rightarrow> jsnum" where
  "fl q =
     (if q = 0 then Fin 0
      else if 0 < q then (case fl_pos q of None \<Rightarrow> PosInf | Some v \<Rightarrow> Fin v)
      else (case fl_pos (- q) of None \<Rightarrow> NegInf | Some v \<Rightarrow> Fin (- v)))"

fun js_sign :: "jsnum \<Rightarrow> int" where
  "js_sign NaN = 0"
| "js_sign PosInf = 1"
| "js_sign NegInf = - 1"
| "js_sign (Fin q) = (if q < 0 then - 1 else if q = 0 then 0 else 1)"

text \<open>The operators \<open>-\<close> and \<open>*\<close> on numbers.\<close>

fun js_minus :: "jsnum \<Rightarrow> jsnum \<Rightarrow> jsnum" where
  "js_minus (Fin a) (Fin b) = fl (a - b)"
| "js_minus NaN y = NaN"
| "js_minus x NaN = NaN"
| "js_minus PosInf PosInf = NaN"
| "js_minus NegInf NegInf = NaN"
| "js_minus PosInf y = PosInf"
| "js_minus NegInf y = NegInf"
| "js_minus (Fin a) PosInf = NegInf"
| "js_minus (Fin a) NegInf = PosInf"

definition js_times :: "jsnum \<Rightarrow> jsnum \<Rightarrow> jsnum" where
  "js_times x y =
     (case (x, y) of
        (Fin a, Fin b) \<Rightarrow> fl (a * b)
      | _ \<Rightarrow>
          (if x = NaN \<or> y = NaN then NaN
           else (let s = js_sign x * js_sign y
                 in if s = 0 then NaN else if 0 < s then PosInf else NegInf)))"

text \<open>
  The values a numeric field of a record can hold: \<open>null\<close>, a number, or
  \<open>undefined\<close> when the key is missing.
\<close>

datatype jsval = Null | Undefined | Number jsnum

fun toNumber :: "jsval \<Rightarrow> jsnum" where
  "toNumber Null = Fin 0"
| "toNumber Undefined = NaN"
| "toNumber (Number x) = x"

definition isNaN :: "jsval \<Rightarrow> bool" where
  "isNaN v = (toNumber v = NaN)"

subsection \<open>Number.prototype.toFixed\<close>

datatype error = RangeError | TypeError | LoadError

definition digitChar :: "int \<Rightarrow> char" where
  "digitChar d = ''0123456789'' ! nat d"

function decimal :: "int \<Rightarrow> string" where
  "decimal n = (if n < 10 then [digitChar n] else decimal (n div 10) @ [digitChar (n mod 10)])"
  by pat_completeness auto
termination
  by (relation "measure nat") auto

declare decimal.simps [simp del]

text \<open>
  \<open>toFixed\<close> as the language standard gives it. The digits are those of the integer
  \<open>n\<close> for which \<open>n / 10 ^ f\<close> is nearest to the value, the larger one of two. A value of
  magnitude \<open>10 ^ 21\<close> or more is printed by the host's general number printing instead,
  which is the parameter \<open>tostr\<close>.
\<close>

definition fixedDigits :: "rat \<Rightarrow> nat \<Rightarrow> string" where
  "fixedDigits a f =
     (let n = \<lfloor>a * 10 ^ f + 1 / 2\<rfloor>;
          m = decimal n
      in if f \<noteq> 0
         then (let z = (if length m \<le> f then replicate (f + 1 - length m) CHR ''0'' @ m else m);
                   k = length z
               in take (k - f) z @ ''.'' @ drop (k - f) z)
         else m)"

definition fixedText :: "(rat \<Rightarrow> string) \<Rightarrow> jsnum \<Rightarrow> nat \<Rightarrow> string" where
  "fixedText tostr x f =
     (case x of
        NaN \<Rightarrow> ''NaN''
      | PosInf \<Rightarrow> ''Infinity''
      | NegInf \<Rightarrow> ''-Infinity''
      | Fin q \<Rightarrow>
          (let s = (if q < 0 then ''-'' else '''');
               a = \<bar>q\<bar>
           in if 10 ^ 21 \<le> a then s @ tostr a else s @ fixedDigits a f))"

definition toFixed :: "(rat \<Rightarrow> string) \<Rightarrow> jsnum \<Rightarrow> nat \<Rightarrow> error + string" where
  "toFixed tostr x f = (if 100 < f then Inl RangeError else Inr (fixedText tostr x f))"

subsection \<open>The two number formatters\<close>

text \<open>
  The \<open>formatNum\<close> of \<open>createRecommendationCard\<close> (lines 149 to 152). Every call gives
  the number of decimals, so the default of 2 is never taken.
\<close>

definition formatNum_card :: "(rat \<Rightarrow> string) \<Rightarrow> jsval \<Rightarrow> nat \<Rightarrow> error + string" where
  "formatNum_card tostr n decimals =
     (if n = Null \<or> n = Undefined then Inr ''--''
      else toFixed tostr (toNumber n) decimals)"

text \<open>The \<open>formatNum\<close> of \<open>createExperimentRow\<close> (lines 269 to 272).\<close>

definition formatNum_row :: "(rat \<Rightarrow> string) \<Rightarrow> jsval \<Rightarrow> nat \<Rightarrow> error + string" where
  "formatNum_row tostr n decimals =
     (if n = Null \<or> n = Undefined \<or> isNaN n then Inr ''--''
      else toFixed tostr (toNumber n) decimals)"

subsection \<open>Array.prototype.sort\<close>

text \<open>
  The sort reads the sign of the comparison function's result, with not-a-number read as
  zero, and is stable. For a comparison function that orders the elements consistently the
  result is the one stable arrangement, whatever the sorting method
  (\<open>js_sort_cmpExp_unique\<close> for the experiments, always; \<open>js_sort_cmpRec_unique\<close> for
  recommendations whose time values are all valid); it is computed here by insertion from
  the right. For a comparison function that is not consistent, which here means a time
  value that is not a number among the recommendations sorted, the language leaves the
  order to the engine: the insertion then gives one arrangement of the same elements, not
  necessarily the engine's, and what is stated below for that case is either free of the
  order or says which engine agrees.
\<close>

definition sortCompare :: "jsnum \<Rightarrow> int" where
  "sortCompare v = js_sign v"

fun insertSorted :: "('a \<Rightarrow> 'a \<Rightarrow> jsnum) \<Rightarrow> 'a \<Rightarrow> 'a list \<Rightarrow> 'a list" where
  "insertSorted cmp x [] = [x]"
| "insertSorted cmp x (y # ys) =
     (if sortCompare (cmp x y) \<le> 0 then x # y # ys else y # insertSorted cmp x ys)"

definition js_sort :: "('a \<Rightarrow> 'a \<Rightarrow> jsnum) \<Rightarrow> 'a list \<Rightarrow> 'a list" where
  "js_sort cmp xs = foldr (insertSorted cmp) xs []"

subsection \<open>The loaded records\<close>

text \<open>
  An experiment as the file reads it: \<open>exp_id\<close> and \<open>source\<close> are strings, the measured
  fields are numbers, \<open>null\<close> or missing. (The type is named \<open>experimentRec\<close> since
  \<open>experiment\<close> is a word of the prover's own language.)
\<close>

record experimentRec =
  exp_id :: string
  Temp :: jsval
  Time :: jsval
  VOacac :: jsval
  DDT :: jsval
  OAm :: jsval
  Size :: jsval
  GSD :: jsval
  Squareness :: jsval
  source :: string

record conditions =
  cond_Temp :: jsval
  cond_Time :: jsval
  cond_VOacac :: jsval
  cond_DDT :: jsval
  cond_OAm :: jsval

record predictions =
  size_mu :: jsval
  size_std :: jsval
  gsd_mu :: jsval
  gsd_std :: jsval
  sq_mu :: jsval
  sq_std :: jsval
  p_feasible :: jsval

record target =
  target_size :: jsval
  tolerance :: jsval

text \<open>
  A recommendation. The three nested objects may be missing (\<open>None\<close>). The field
  \<open>timestamp\<close> holds the time value, in milliseconds, of \<open>new Date(rec.timestamp)\<close>;
  \<open>None\<close> stands for a string that is no date, whose time value is not a number.
\<close>

record recommendation =
  rec_id :: string
  status :: string
  conditions :: "conditions option"
  predictions :: "predictions option"
  target :: "target option"
  timestamp :: "int option"
  skip_reason :: "string option"

subsection \<open>The state object and the page\<close>

record state =
  experiments :: "experimentRec list"
  recommendations :: "recommendation list"
  currentFilter :: string
  currentSource :: string
  isLoading :: bool

definition initial_state :: state where
  "initial_state =
     \<lparr>experiments = [], recommendations = [], currentFilter = ''pending'',
      currentSource = ''all'', isLoading = True\<rparr>"

text \<open>
  What a recommendation card and an experiment row show, slot by slot of the two
  templates. The two date lines of a card go through the host's locale and are left out.
\<close>

record card =
  card_status :: string
  card_rec_id :: string
  card_target_size :: string
  card_target_tolerance :: string
  card_Temp :: string
  card_Time :: string
  card_VOacac :: string
  card_DDT :: string
  card_OAm :: string
  card_size_mu :: string
  card_size_std :: string
  card_gsd_mu :: string
  card_gsd_std :: string
  card_sq_mu :: string
  card_sq_std :: string
  card_p_feasible :: string
  card_skip_reason :: string

record row =
  row_exp_id :: string
  row_Temp :: string
  row_Time :: string
  row_VOacac :: string
  row_DDT :: string
  row_OAm :: string
  row_Size :: string
  row_GSD :: string
  row_Squareness :: string
  row_source :: string

text \<open>
  The content of a list container: the markup the page came with, the error fragment of
  \<open>showError\<close> with its message, an empty-state fragment with its sentence, or one
  fragment per record.
\<close>

datatype 'a fragment = Markup | ErrorFragment string | EmptyState string | Items "'a list"

fun items :: "'a fragment \<Rightarrow> 'a list" where
  "items (Items xs) = xs"
| "items other = []"

text \<open>
  The elements of the page the file writes to, by their ids; all of them are taken to
  exist. The last two fields say which filter tab and which source tab carry the class
  \<open>active\<close>.
\<close>

record dom =
  total_experiments :: string
  pending_count :: string
  completed_count :: string
  model_accuracy :: string
  pending_badge :: string
  completed_badge :: string
  skipped_badge :: string
  recommendations_list :: "card fragment"
  experiments_tbody :: "row fragment"
  active_filter_tab :: string
  active_source_tab :: string

type_synonym world = "state \<times> dom"

datatype result = Done world | Throw error world

fun outcome :: "result \<Rightarrow> world" where
  "outcome (Done w) = w"
| "outcome (Throw e w) = w"

definition andThen :: "error + 'a \<Rightarrow> ('a \<Rightarrow> error + 'b) \<Rightarrow> error + 'b" where
  "andThen m f = (case m of Inl e \<Rightarrow> Inl e | Inr x \<Rightarrow> f x)"

fun mapM :: "('a \<Rightarrow> error + 'b) \<Rightarrow> 'a list \<Rightarrow> error + 'b list" where
  "mapM f [] = Inr []"
| "mapM f (x # xs) = andThen (f x) (\<lambda>y. andThen (mapM f xs) (\<lambda>ys. Inr (y # ys)))"

subsection \<open>Statistics and badges\<close>

definition textOf :: "nat \<Rightarrow> string" where
  "textOf n = decimal (int n)"

definition updateStats :: "world \<Rightarrow> world" where
  "updateStats w =
     (let (st, d) = w;
          pending = filter (\<lambda>r. status r = ''pending'') (recommendations st);
          completed = filter (\<lambda>r. status r = ''completed'') (recommendations st);
          imported = length (filter (\<lambda>e. source e = ''imported'') (experiments st));
          recommendation = length (filter (\<lambda>e. source e = ''recommendation'') (experiments st));
          manual = length (filter (\<lambda>e. source e = ''manual'') (experiments st))
      in (st, d\<lparr>total_experiments := textOf (length (experiments st)),
                pending_count := textOf (length pending),
                completed_count := textOf (length completed),
                model_accuracy :=
                  textOf imported @ ''/'' @ textOf recommendation @ ''/'' @ textOf manual\<rparr>))"

definition updateBadges :: "world \<Rightarrow> world" where
  "updateBadges w =
     (let (st, d) = w;
          pending = length (filter (\<lambda>r. status r = ''pending'') (recommendations st));
          completed = length (filter (\<lambda>r. status r = ''completed'') (recommendations st));
          skipped = length (filter (\<lambda>r. status r = ''skipped'') (recommendations st))
      in (st, d\<lparr>pending_badge := textOf pending,
                completed_badge := textOf completed,
                skipped_badge := textOf skipped\<rparr>))"

subsection \<open>The recommendations list\<close>

text \<open>The comparison function of line 129: \<open>new Date(b.timestamp) - new Date(a.timestamp)\<close>.\<close>

definition dateValue :: "recommendation \<Rightarrow> jsnum" where
  "dateValue r = (case timestamp r of None \<Rightarrow> NaN | Some t \<Rightarrow> Fin (of_int t))"

definition cmpRec :: "recommendation \<Rightarrow> recommendation \<Rightarrow> jsnum" where
  "cmpRec a b = js_minus (dateValue b) (dateValue a)"

text \<open>The variable \<open>filtered\<close> after line 126, and after the sort of line 129.\<close>

definition filteredRecommendations :: "state \<Rightarrow> recommendation list" where
  "filteredRecommendations st =
     (if currentFilter st \<noteq> ''all''
      then filter (\<lambda>r. status r = currentFilter st) (recommendations st)
      else recommendations st)"

definition sortedRecommendations :: "state \<Rightarrow> recommendation list" where
  "sortedRecommendations st = js_sort cmpRec (filteredRecommendations st)"

definition noConditions :: conditions where
  "noConditions =
     \<lparr>cond_Temp = Undefined, cond_Time = Undefined, cond_VOacac = Undefined,
      cond_DDT = Undefined, cond_OAm = Undefined\<rparr>"

definition noPredictions :: predictions where
  "noPredictions =
     \<lparr>size_mu = Undefined, size_std = Undefined, gsd_mu = Undefined, gsd_std = Undefined,
      sq_mu = Undefined, sq_std = Undefined, p_feasible = Undefined\<rparr>"

definition noTarget :: target where
  "noTarget = \<lparr>target_size = Undefined, tolerance = Undefined\<rparr>"

definition createRecommendationCard :: "(rat \<Rightarrow> string) \<Rightarrow> recommendation \<Rightarrow> error + card" where
  "createRecommendationCard tostr r =
     (let conditions = (case conditions r of None \<Rightarrow> noConditions | Some c \<Rightarrow> c);
          predictions = (case predictions r of None \<Rightarrow> noPredictions | Some p \<Rightarrow> p);
          target = (case target r of None \<Rightarrow> noTarget | Some t \<Rightarrow> t);
          formatNum = formatNum_card tostr;
          skipInfo = (case skip_reason r of None \<Rightarrow> [] | Some reason \<Rightarrow> reason)
      in andThen (formatNum (target_size target) 1) (\<lambda>v1.
         andThen (formatNum (tolerance target) 1) (\<lambda>v2.
         andThen (formatNum (cond_Temp conditions) 1) (\<lambda>v3.
         andThen (formatNum (cond_Time conditions) 1) (\<lambda>v4.
         andThen (formatNum (cond_VOacac conditions) 2) (\<lambda>v5.
         andThen (formatNum (cond_DDT conditions) 2) (\<lambda>v6.
         andThen (formatNum (cond_OAm conditions) 2) (\<lambda>v7.
         andThen (formatNum (size_mu predictions) 1) (\<lambda>v8.
         andThen (formatNum (size_std predictions) 1) (\<lambda>v9.
         andThen (formatNum (gsd_mu predictions) 3) (\<lambda>v10.
         andThen (formatNum (gsd_std predictions) 3) (\<lambda>v11.
         andThen (formatNum (sq_mu predictions) 3) (\<lambda>v12.
         andThen (formatNum (sq_std predictions) 3) (\<lambda>v13.
         andThen (formatNum
                    (Number (js_times (toNumber (p_feasible predictions)) (Fin 100))) 1) (\<lambda>v14.
         Inr \<lparr>card_status = status r, card_rec_id = rec_id r,
              card_target_size = v1, card_target_tolerance = v2,
              card_Temp = v3, card_Time = v4, card_VOacac = v5, card_DDT = v6, card_OAm = v7,
              card_size_mu = v8, card_size_std = v9, card_gsd_mu = v10, card_gsd_std = v11,
              card_sq_mu = v12, card_sq_std = v13, card_p_feasible = v14,
              card_skip_reason = skipInfo\<rparr>)))))))))))))))"

text \<open>The sentence of the empty-state fragment of line 135.\<close>

definition recommendationsEmptyText :: "string \<Rightarrow> string" where
  "recommendationsEmptyText f =
     ''No '' @ (if f = ''all'' then [] else f) @ '' recommendations found.''"

text \<open>
  \<open>updateRecommendations\<close> (lines 120 to 142). When the filter is \<open>all\<close> the variable
  \<open>filtered\<close> is the array \<open>state.recommendations\<close> itself, no copy being made, and
  \<open>sort\<close> sorts in place: the sorted order is then written to the state.
\<close>

definition updateRecommendations :: "(rat \<Rightarrow> string) \<Rightarrow> world \<Rightarrow> result" where
  "updateRecommendations tostr w =
     (let (st, d) = w;
          filtered = sortedRecommendations st;
          st' = (if currentFilter st \<noteq> ''all'' then st else st\<lparr>recommendations := filtered\<rparr>)
      in if length filtered = 0
         then Done (st', d\<lparr>recommendations_list :=
                 EmptyState (recommendationsEmptyText (currentFilter st))\<rparr>)
         else (case mapM (createRecommendationCard tostr) filtered of
                 Inl e \<Rightarrow> Throw e (st', d)
               | Inr cards \<Rightarrow> Done (st', d\<lparr>recommendations_list := Items cards\<rparr>)))"

subsection \<open>The experiments table\<close>

text \<open>
  The sort key of lines 249 and 250: \<open>parseInt(exp_id.replace(/\D/g, '')) || 0\<close>.
  \<open>parseInt\<close> is given for the strings it meets here, which hold decimal digits only: no
  digit gives not-a-number, otherwise the number nearest to the integer written.
\<close>

definition isDigit :: "char \<Rightarrow> bool" where
  "isDigit c = (c \<in> set ''0123456789'')"

definition stripNonDigits :: "string \<Rightarrow> string" where
  "stripNonDigits s = filter isDigit s"

definition digitsValue :: "string \<Rightarrow> int" where
  "digitsValue ds = foldl (\<lambda>n c. 10 * n + (of_char c - 48)) 0 ds"

definition parseInt :: "string \<Rightarrow> jsnum" where
  "parseInt s =
     (let ds = takeWhile isDigit s
      in if ds = [] then NaN else fl (of_int (digitsValue ds)))"

definition orZero :: "jsnum \<Rightarrow> jsnum" where
  "orZero x = (if x = NaN \<or> x = Fin 0 then Fin 0 else x)"

definition expNum :: "experimentRec \<Rightarrow> jsnum" where
  "expNum e = orZero (parseInt (stripNonDigits (exp_id e)))"

definition cmpExp :: "experimentRec \<Rightarrow> experimentRec \<Rightarrow> jsnum" where
  "cmpExp a b = js_minus (expNum a) (expNum b)"

text \<open>The variable \<open>filtered\<close> after line 245, and after the sort of lines 248 to 252.\<close>

definition filteredExperiments :: "state \<Rightarrow> experimentRec list" where
  "filteredExperiments st =
     (if currentSource st \<noteq> ''all''
      then filter (\<lambda>e. source e = currentSource st) (experiments st)
      else experiments st)"

definition sortedExperiments :: "state \<Rightarrow> experimentRec list" where
  "sortedExperiments st = js_sort cmpExp (filteredExperiments st)"

definition createExperimentRow :: "(rat \<Rightarrow> string) \<Rightarrow> experimentRec \<Rightarrow> error + row" where
  "createExperimentRow tostr e =
     (let formatNum = formatNum_row tostr;
          sourceClass = (if source e = [] then ''imported'' else source e)
      in andThen (formatNum (Temp e) 0) (\<lambda>v1.
         andThen (formatNum (Time e) 1) (\<lambda>v2.
         andThen (formatNum (VOacac e) 2) (\<lambda>v3.
         andThen (formatNum (DDT e) 2) (\<lambda>v4.
         andThen (formatNum (OAm e) 2) (\<lambda>v5.
         andThen (formatNum (Size e) 1) (\<lambda>v6.
         andThen (formatNum (GSD e) 3) (\<lambda>v7.
         andThen (formatNum (Squareness e) 3) (\<lambda>v8.
         Inr \<lparr>row_exp_id = exp_id e, row_Temp = v1, row_Time = v2, row_VOacac = v3,
              row_DDT = v4, row_OAm = v5, row_Size = v6, row_GSD = v7, row_Squareness = v8,
              row_source = sourceClass\<rparr>)))))))))"

text \<open>The sentence of the empty-state fragment of line 258.\<close>

definition experimentsEmptyText :: string where
  "experimentsEmptyText = ''No experiments found for the selected source.''"

text \<open>
  \<open>updateExperimentsTable\<close> (lines 239 to 266), with the same sharing of the array when
  the source is \<open>all\<close>.
\<close>

definition updateExperimentsTable :: "(rat \<Rightarrow> string) \<Rightarrow> world \<Rightarrow> result" where
  "updateExperimentsTable tostr w =
     (let (st, d) = w;
          filtered = sortedExperiments st;
          st' = (if currentSource st \<noteq> ''all'' then st else st\<lparr>experiments := filtered\<rparr>)
      in if length filtered = 0
         then Done (st', d\<lparr>experiments_tbody := EmptyState experimentsEmptyText\<rparr>)
         else (case mapM (createExperimentRow tostr) filtered of
                 Inl e \<Rightarrow> Throw e (st', d)
               | Inr rows \<Rightarrow> Done (st', d\<lparr>experiments_tbody := Items rows\<rparr>)))"

subsection \<open>Rendering everything, and loading\<close>

definition updateUI :: "(rat \<Rightarrow> string) \<Rightarrow> world \<Rightarrow> result" where
  "updateUI tostr w =
     (case updateRecommendations tostr (updateStats w) of
        Throw e w1 \<Rightarrow> Throw e w1
      | Done w1 \<Rightarrow>
          (case updateExperimentsTable tostr w1 of
             Throw e w2 \<Rightarrow> Throw e w2
           | Done w2 \<Rightarrow> Done (updateBadges w2)))"

definition showError :: "string \<Rightarrow> world \<Rightarrow> world" where
  "showError message w =
     (let (st, d) = w
      in (st, d\<lparr>recommendations_list := ErrorFragment message,
                experiments_tbody := ErrorFragment message\<rparr>))"

text \<open>
  What a fetch gives: the promise is rejected, or there is a response with its \<open>ok\<close> flag
  and a body. The body is no JSON, or parses to \<open>null\<close>, or to a value on which the key
  read is missing or falsy (\<open>JsonDoc None\<close>) or holds an array.
\<close>

datatype 'a json = JsonNull | JsonDoc "'a list option"

datatype 'a body = NotJson | Json "'a json"

datatype 'a response = Rejected | Response bool "'a body"

definition loadMessage :: string where
  "loadMessage = ''Unable to load data. Make sure the JSON files are in the data/ folder.''"

text \<open>
  \<open>loadData\<close> (lines 33 to 56). Every exception of the \<open>try\<close> block, one thrown while
  rendering included, ends in \<open>showError\<close>; reading a key of \<open>null\<close> throws.
\<close>

definition loadData ::
  "(rat \<Rightarrow> string) \<Rightarrow> experimentRec response \<Rightarrow> recommendation response \<Rightarrow> world \<Rightarrow> world" where
  "loadData tostr expResponse recResponse w =
     (case (expResponse, recResponse) of
        (Response expOk expBody, Response recOk recBody) \<Rightarrow>
          (if \<not> expOk \<or> \<not> recOk then showError loadMessage w
           else (case (expBody, recBody) of
                   (Json expData, Json recData) \<Rightarrow>
                     (case expData of
                        JsonNull \<Rightarrow> showError loadMessage w
                      | JsonDoc es \<Rightarrow>
                          (let w1 = ((fst w)\<lparr>experiments :=
                                        (case es of None \<Rightarrow> [] | Some xs \<Rightarrow> xs)\<rparr>, snd w)
                           in case recData of
                                JsonNull \<Rightarrow> showError loadMessage w1
                              | JsonDoc rs \<Rightarrow>
                                  (let w2 = ((fst w1)\<lparr>recommendations :=
                                                (case rs of None \<Rightarrow> [] | Some xs \<Rightarrow> xs),
                                              isLoading := False\<rparr>, snd w1)
                                   in case updateUI tostr w2 of
                                        Done w3 \<Rightarrow> w3
                                      | Throw e w3 \<Rightarrow> showError loadMessage w3)))
                 | _ \<Rightarrow> showError loadMessage w))
      | _ \<Rightarrow> showError loadMessage w)"

subsection \<open>The filter tabs\<close>

text \<open>
  The two click handlers of \<open>setupEventListeners\<close> (lines 299 to 304 and 309 to 314);
  the argument is the \<open>data-filter\<close> or \<open>data-source\<close> value of the tab clicked.
\<close>

definition clickFilterTab :: "(rat \<Rightarrow> string) \<Rightarrow> string \<Rightarrow> world \<Rightarrow> result" where
  "clickFilterTab tostr f w =
     (let (st, d) = w
      in updateRecommendations tostr (st\<lparr>currentFilter := f\<rparr>, d\<lparr>active_filter_tab := f\<rparr>))"

definition clickSourceTab :: "(rat \<Rightarrow> string) \<Rightarrow> string \<Rightarrow> world \<Rightarrow> result" where
  "clickSourceTab tostr s w =
     (let (st, d) = w
      in updateExperimentsTable tostr (st\<lparr>currentSource := s\<rparr>, d\<lparr>active_source_tab := s\<rparr>))"

subsection \<open>Notions the properties are stated with\<close>

text \<open>The order \<open>\<le>\<close> of the language on numbers; not-a-number is related to nothing.\<close>

definition num_le :: "jsnum \<Rightarrow> jsnum \<Rightarrow> bool" where
  "num_le x y =
     (case (x, y) of
        (Fin a, Fin b) \<Rightarrow> a \<le> b
      | (Fin a, PosInf) \<Rightarrow> True
      | (PosInf, PosInf) \<Rightarrow> True
      | (NegInf, NaN) \<Rightarrow> False
      | (NegInf, _) \<Rightarrow> True
      | _ \<Rightarrow> False)"

text \<open>
  The integer written by the digits of an experiment's id, 0 when it has no digit: the
  sort key as the specification words it.
\<close>

definition idInteger :: "experimentRec \<Rightarrow> int" where
  "idInteger e = digitsValue (stripNonDigits (exp_id e))"

text \<open>
  The experiments view as the specification words it: the experiments of the selected
  source, in ascending order of that integer, equal integers in their order of loading.
\<close>

definition spec_experiments_view :: "state \<Rightarrow> experimentRec list" where
  "spec_experiments_view st =
     sort_key idInteger
       (if currentSource st = ''all'' then experiments st
        else filter (\<lambda>e. source e = currentSource st) (experiments st))"

text \<open>
  One recommendation is not older than another (both time values being valid), and a
  list of recommendations is in descending order of time value.
\<close>

definition notOlder :: "recommendation \<Rightarrow> recommendation \<Rightarrow> bool" where
  "notOlder a b =
     (case timestamp a of
        None \<Rightarrow> False
      | Some x \<Rightarrow> (case timestamp b of None \<Rightarrow> False | Some y \<Rightarrow> y \<le> x))"

definition descendingByTimestamp :: "recommendation list \<Rightarrow> bool" where
  "descendingByTimestamp xs = sorted_wrt notOlder xs"

text \<open>An embedding of the sort keys of experiments into a linear order.\<close>

definition ordKey :: "jsnum \<Rightarrow> bool \<times> rat" where
  "ordKey x = (case x of PosInf \<Rightarrow> (True, 0) | Fin q \<Rightarrow> (False, q) | _ \<Rightarrow> (False, 0))"

text \<open>
  The text each formatter gives when the number of decimals is one \<open>toFixed\<close> accepts,
  and the card and the row of a record (rendering a record never throws, see
  \<open>createRecommendationCard_total\<close> and \<open>createExperimentRow_total\<close>).
\<close>

definition cardText :: "(rat \<Rightarrow> string) \<Rightarrow> jsval \<Rightarrow> nat \<Rightarrow> string" where
  "cardText tostr n decimals =
     (if n = Null \<or> n = Undefined then ''--'' else fixedText tostr (toNumber n) decimals)"

definition rowText :: "(rat \<Rightarrow> string) \<Rightarrow> jsval \<Rightarrow> nat \<Rightarrow> string" where
  "rowText tostr n decimals =
     (if n = Null \<or> n = Undefined \<or> isNaN n then ''--''
      else fixedText tostr (toNumber n) decimals)"

definition cardOf :: "(rat \<Rightarrow> string) \<Rightarrow> recommendation \<Rightarrow> card" where
  "cardOf tostr r = projr (createRecommendationCard tostr r)"

definition rowOf :: "(rat \<Rightarrow> string) \<Rightarrow> experimentRec \<Rightarrow> row" where
  "rowOf tostr e = projr (createExperimentRow tostr e)"

text \<open>
  The state after each of the two list renderings, and what the two containers then
  show (see \<open>updateRecommendations_eq\<close> and \<open>updateExperimentsTable_eq\<close>).
\<close>

definition afterRecommendations :: "state \<Rightarrow> state" where
  "afterRecommendations st =
     (if currentFilter st \<noteq> ''all'' then st
      else st\<lparr>recommendations := sortedRecommendations st\<rparr>)"

definition afterExperiments :: "state \<Rightarrow> state" where
  "afterExperiments st =
     (if currentSource st \<noteq> ''all'' then st
      else st\<lparr>experiments := sortedExperiments st\<rparr>)"

definition recommendationsFragment :: "(rat \<Rightarrow> string) \<Rightarrow> state \<Rightarrow> card fragment" where
  "recommendationsFragment tostr st =
     (if sortedRecommendations st = []
      then EmptyState (recommendationsEmptyText (currentFilter st))
      else Items (map (cardOf tostr) (sortedRecommendations st)))"

definition experimentsFragment :: "(rat \<Rightarrow> string) \<Rightarrow> state \<Rightarrow> row fragment" where
  "experimentsFragment tostr st =
     (if sortedExperiments st = []
      then EmptyState experimentsEmptyText
      else Items (map (rowOf tostr) (sortedExperiments st)))"

definition isError :: "'a fragment \<Rightarrow> bool" where
  "isError v = (case v of ErrorFragment m \<Rightarrow> True | _ \<Rightarrow> False)"

text \<open>A fetch that makes \<open>loadData\<close> fail: rejected, not successful, or a body that is no JSON.\<close>

definition failedFetch :: "'a response \<Rightarrow> bool" where
  "failedFetch r = (case r of Rejected \<Rightarrow> True | Response ok b \<Rightarrow> \<not> ok \<or> b = NotJson)"

subsection \<open>Sample data\<close>

definition sampleExperiment :: "string \<Rightarrow> string \<Rightarrow> experimentRec" where
  "sampleExperiment i s =
     \<lparr>exp_id = i, Temp = Number (Fin 180), Time = Number (Fin (45 / 2)), VOacac = Null,
      DDT = Undefined, OAm = Number NaN, Size = Number (Fin (3537115888337719 / 1125899906842624)),
      GSD = Number (Fin 0), Squareness = Null, source = s\<rparr>"

definition sampleRecommendation :: "string \<Rightarrow> string \<Rightarrow> int \<Rightarrow> recommendation" where
  "sampleRecommendation i s t =
     \<lparr>rec_id = i, status = s, conditions = None, predictions = None, target = None,
      timestamp = Some t, skip_reason = None\<rparr>"

definition blankPage :: dom where
  "blankPage =
     \<lparr>total_experiments = [], pending_count = [], completed_count = [], model_accuracy = [],
      pending_badge = [], completed_badge = [], skipped_badge = [],
      recommendations_list = Markup, experiments_tbody = Markup,
      active_filter_tab = ''pending'', active_source_tab = ''all''\<rparr>"

definition fixtureState :: state where
  "fixtureState =
     \<lparr>experiments =
        [sampleExperiment ''E1'' ''imported'', sampleExperiment ''E2'' ''recommendation'',
         sampleExperiment ''E3'' ''manual''],
      recommendations =
        [sampleRecommendation ''R1'' ''pending'' 1700000000000,
         sampleRecommendation ''R2'' ''completed'' 1700000100000,
         sampleRecommendation ''R3'' ''skipped'' 1700000200000],
      currentFilter = ''pending'', currentSource = ''all'', isLoading = False\<rparr>"

definition mixedState :: state where
  "mixedState =
     \<lparr>experiments =
        [sampleExperiment ''E2'' ''manual'', sampleExperiment ''E10'' ''imported'',
         sampleExperiment ''E1'' ''manual''],
      recommendations =
        [sampleRecommendation ''R1'' ''pending'' 100, sampleRecommendation ''R2'' ''completed'' 200,
         sampleRecommendation ''R3'' ''pending'' 300, sampleRecommendation ''R4'' ''skipped'' 400],
      currentFilter = ''pending'', currentSource = ''all'', isLoading = False\<rparr>"

definition bigIdState :: state where
  "bigIdState =
     \<lparr>experiments =
        [sampleExperiment ''E9007199254740993'' ''manual'',
         sampleExperiment ''E9007199254740992'' ''manual''],
      recommendations = [],
      currentFilter = ''pending'', currentSource = ''all'', isLoading = False\<rparr>"

text \<open>A recommendation whose \<open>timestamp\<close> is no date, and states that hold one.\<close>

definition undatedRecommendation :: "string \<Rightarrow> string \<Rightarrow> recommendation" where
  "undatedRecommendation i s =
     \<lparr>rec_id = i, status = s, conditions = None, predictions = None, target = None,
      timestamp = None, skip_reason = None\<rparr>"

definition undatedState :: state where
  "undatedState =
     \<lparr>experiments = [],
      recommendations =
        [sampleRecommendation ''R1'' ''pending'' 100, undatedRecommendation ''R3'' ''pending'',
         sampleRecommendation ''R2'' ''pending'' 200],
      currentFilter = ''pending'', currentSource = ''all'', isLoading = False\<rparr>"

definition partlyDatedState :: state where
  "partlyDatedState =
     \<lparr>experiments = [],
      recommendations =
        [sampleRecommendation ''R1'' ''pending'' 100, undatedRecommendation ''R5'' ''completed'',
         sampleRecommendation ''R2'' ''completed'' 200, sampleRecommendation ''R3'' ''pending'' 300],
      currentFilter = ''pending'', currentSource = ''all'', isLoading = False\<rparr>"

definition noText :: "rat \<Rightarrow> string" where
  "noText q = []"

section \<open>Proofs\<close>

subsection \<open>The sort\<close>

lemma mset_insertSorted: "mset (insertSorted cmp x ys) = add_mset x (mset ys)"
  by (induction ys) simp_all

lemma mset_js_sort: "mset (js_sort cmp xs) = mset xs"
  by (induction xs) (simp_all add: js_sort_def mset_insertSorted)

lemma set_js_sort: "set (js_sort cmp xs) = set xs"
  by (metis mset_js_sort set_mset_mset)

lemma length_js_sort: "length (js_sort cmp xs) = length xs"
  by (metis mset_js_sort size_mset)

lemma js_sort_Nil_iff: "(js_sort cmp xs = []) = (xs = [])"
  by (metis length_js_sort length_0_conv)

lemma filter_length_js_sort: "length (filter P (js_sort cmp xs)) = length (filter P xs)"
  by (metis mset_filter mset_js_sort size_mset)

lemma insertSorted_insort_key:
  assumes "\<And>b. b \<in> set ys \<Longrightarrow> (sortCompare (cmp x b) \<le> 0) = (key x \<le> key b)"
  shows "insertSorted cmp x ys = insort_key key x ys"
  using assms by (induction ys) simp_all

lemma js_sort_sort_key:
  assumes "\<And>a b. a \<in> set xs \<Longrightarrow> b \<in> set xs \<Longrightarrow> (sortCompare (cmp a b) \<le> 0) = (key a \<le> key b)"
  shows "js_sort cmp xs = sort_key key xs"
  using assms
proof (induction xs)
  case Nil
  show ?case by (simp add: js_sort_def)
next
  case (Cons x xs)
  have step: "js_sort cmp (x # xs) = insertSorted cmp x (js_sort cmp xs)"
    by (simp add: js_sort_def)
  have ih: "js_sort cmp xs = sort_key key xs"
    using Cons by simp
  have "insertSorted cmp x (sort_key key xs) = insort_key key x (sort_key key xs)"
    by (rule insertSorted_insort_key) (use Cons.prems in simp)
  with step ih show ?case by simp
qed

lemma js_sort_sorted_id:
  "sorted_wrt (\<lambda>a b. sortCompare (cmp a b) \<le> 0) xs \<Longrightarrow> js_sort cmp xs = xs"
proof (induction xs)
  case Nil
  show ?case by (simp add: js_sort_def)
next
  case (Cons x xs)
  then have ih: "js_sort cmp xs = xs" by simp
  have "js_sort cmp (x # xs) = insertSorted cmp x xs"
    using ih by (simp add: js_sort_def)
  also have "\<dots> = x # xs"
    using Cons.prems by (cases xs) simp_all
  finally show ?case .
qed

subsection \<open>Rounding of integers\<close>

lemma bitlen_lower: "0 < z \<Longrightarrow> 2 ^ (bitlen z - 1) \<le> z"
proof (induction z rule: bitlen.induct)
  case (1 n)
  show ?case
  proof (cases "n div 2 \<le> 0")
    case True
    with "1.prems" have "n = 1" by linarith
    then show ?thesis by (simp add: bitlen.simps)
  next
    case False
    then have pos: "0 < n div 2" by simp
    have ih: "2 ^ (bitlen (n div 2) - 1) \<le> n div 2"
      using "1.IH" "1.prems" pos by simp
    have b: "bitlen n = Suc (bitlen (n div 2))"
      using "1.prems" by (simp add: bitlen.simps [of n])
    have "1 \<le> bitlen (n div 2)"
      using pos by (simp add: bitlen.simps [of "n div 2"])
    then have "(2::int) ^ (bitlen n - 1) = 2 * 2 ^ (bitlen (n div 2) - 1)"
      using b by (cases "bitlen (n div 2)") simp_all
    also have "\<dots> \<le> 2 * (n div 2)" using ih by simp
    also have "\<dots> \<le> n" by simp
    finally show ?thesis .
  qed
qed

lemma bitlen_upper: "z < 2 ^ j \<Longrightarrow> bitlen z \<le> j"
proof (induction j arbitrary: z)
  case 0
  then show ?case by (simp add: bitlen.simps [of z])
next
  case (Suc j)
  show ?case
  proof (cases "z \<le> 0")
    case True
    then show ?thesis by (simp add: bitlen.simps [of z])
  next
    case False
    have "z div 2 < 2 ^ j" using Suc.prems by simp
    then have "bitlen (z div 2) \<le> j" by (rule Suc.IH)
    then show ?thesis using False by (simp add: bitlen.simps [of z])
  qed
qed

lemma bitlen_pos: "0 < z \<Longrightarrow> 1 \<le> bitlen z"
  by (simp add: bitlen.simps [of z])

lemma ilog2_of_int:
  assumes "0 < z"
  shows "ilog2 (of_int z) = int (bitlen z) - 1"
proof -
  have one: "bitlen 1 = 1" by (simp add: bitlen.simps)
  have "(2::int) ^ (bitlen z - 1) \<le> z" using assms by (rule bitlen_lower)
  then have "(of_int ((2::int) ^ (bitlen z - 1)) :: rat) \<le> of_int z"
    by (simp only: of_int_le_iff)
  then have le: "(2::rat) ^ (bitlen z - 1) \<le> of_int z" by simp
  have nat: "nat (int (bitlen z) - 1) = bitlen z - 1" by simp
  have "0 \<le> int (bitlen z) - 1" using bitlen_pos [OF assms] by simp
  then have "pow2 (int (bitlen z) - 1) \<le> of_int z"
    using le by (simp add: pow2_def nat)
  then show ?thesis
    by (simp add: ilog2_def quotient_of_int one)
qed

lemma roundTiesToEven_of_int: "roundTiesToEven (of_int n) = n"
  by (simp add: roundTiesToEven_def)

lemma roundTiesToEven_ge_floor: "\<lfloor>x\<rfloor> \<le> roundTiesToEven x"
  by (simp add: roundTiesToEven_def Let_def)

lemma pow2_pos: "0 < pow2 e"
  by (simp add: pow2_def)

lemma fl_pos_of_int_small:
  assumes "0 < z" and "z < 2 ^ 53"
  shows "fl_pos (of_int z) = Some (of_int z)"
proof -
  define e where "e = max (ilog2 (of_int z) - 52) (- 1074)"
  have k: "ilog2 (of_int z) = int (bitlen z) - 1" using assms(1) by (rule ilog2_of_int)
  have "bitlen z \<le> 53" using assms(2) by (rule bitlen_upper)
  then have e_le: "e \<le> 0"
    by (simp add: e_def k)
  have p: "pow2 e = 1 / 2 ^ nat (- e)"
    using e_le by (cases "e = 0") (simp_all add: pow2_def)
  have "of_int z / pow2 e = (of_int (z * 2 ^ nat (- e)) :: rat)"
    by (simp add: p)
  then have r: "roundTiesToEven (of_int z / pow2 e) = z * 2 ^ nat (- e)"
    by (simp only: roundTiesToEven_of_int)
  have v: "of_int (roundTiesToEven (of_int z / pow2 e)) * pow2 e = (of_int z :: rat)"
    unfolding r by (simp add: p)
  have "(of_int z :: rat) < of_int (2 ^ 53)"
    using assms(2) by (simp only: of_int_less_iff)
  also have "\<dots> < 2 ^ 1024" by simp
  finally have small: "\<not> (2::rat) ^ 1024 \<le> of_int z" by simp
  show ?thesis
    unfolding fl_pos_def Let_def e_def [symmetric] v using small by simp
qed

lemma fl_pos_of_int:
  assumes "0 < z"
  shows "fl_pos (of_int z) = None \<or> (\<exists>m. 0 < m \<and> fl_pos (of_int z) = Some (of_int m))"
proof -
  define e where "e = max (ilog2 (of_int z) - 52) (- 1074)"
  define m where "m = roundTiesToEven (of_int z / pow2 e)"
  have k: "ilog2 (of_int z) = int (bitlen z) - 1" using assms by (rule ilog2_of_int)
  have e_eq: "e = int (bitlen z) - 53"
    by (simp add: e_def k)
  show ?thesis
  proof (cases "e \<le> 0")
    case True
    then have "bitlen z \<le> 53" by (simp add: e_eq)
    have p: "pow2 e = 1 / 2 ^ nat (- e)"
      using True by (cases "e = 0") (simp_all add: pow2_def)
    have "of_int z / pow2 e = (of_int (z * 2 ^ nat (- e)) :: rat)"
      by (simp add: p)
    then have r: "m = z * 2 ^ nat (- e)"
      unfolding m_def by (simp only: roundTiesToEven_of_int)
    have v: "of_int m * pow2 e = (of_int z :: rat)"
      unfolding r by (simp add: p)
    show ?thesis
      unfolding fl_pos_def Let_def e_def [symmetric] m_def [symmetric] v
      using assms by auto
  next
    case False
    then have e_pos: "0 < e" by simp
    have p: "pow2 e = of_int (2 ^ nat e)"
      using e_pos by (simp add: pow2_def)
    have "(2::int) ^ nat e \<le> 2 ^ (bitlen z - 1)"
      using e_pos by (intro power_increasing) (simp_all add: e_eq)
    also have "\<dots> \<le> z" using assms by (rule bitlen_lower)
    finally have "(2::int) ^ nat e \<le> z" .
    then have "(of_int ((2::int) ^ nat e) :: rat) \<le> of_int z"
      by (simp only: of_int_le_iff)
    then have "1 \<le> (of_int z :: rat) / pow2 e"
      unfolding p by (simp add: le_divide_eq)
    then have "1 \<le> \<lfloor>(of_int z :: rat) / pow2 e\<rfloor>"
      by (simp add: le_floor_iff)
    then have m_pos: "0 < m"
      using roundTiesToEven_ge_floor [of "of_int z / pow2 e"] unfolding m_def by linarith
    have v: "of_int m * pow2 e = (of_int (m * 2 ^ nat e) :: rat)"
      unfolding p by simp
    have "0 < m * 2 ^ nat e" using m_pos by simp
    then show ?thesis
      unfolding fl_pos_def Let_def e_def [symmetric] m_def [symmetric] v
      by (cases "(2::rat) ^ 1024 \<le> of_int (m * 2 ^ nat e)") auto
  qed
qed

lemma fl_zero: "fl 0 = Fin 0"
  by (simp add: fl_def)

lemma fl_of_int_small: "0 \<le> z \<Longrightarrow> z < 2 ^ 53 \<Longrightarrow> fl (of_int z) = Fin (of_int z)"
  by (cases "z = 0") (simp_all add: fl_def fl_pos_of_int_small)

lemma fl_of_int_pos:
  assumes "0 < z"
  shows "fl (of_int z) = PosInf \<or> (\<exists>m. 0 < m \<and> fl (of_int z) = Fin (of_int m))"
  using fl_pos_of_int [OF assms] assms by (auto simp: fl_def)

lemma fl_of_int_neg:
  assumes "z < 0"
  shows "fl (of_int z) = NegInf \<or> (\<exists>m. m < 0 \<and> fl (of_int z) = Fin (of_int m))"
proof -
  have "0 < - z" using assms by simp
  from fl_pos_of_int [OF this]
  have "fl_pos (- of_int z) = None \<or> (\<exists>m. 0 < m \<and> fl_pos (- of_int z) = Some (of_int m))"
    by simp
  then show ?thesis
  proof
    assume "fl_pos (- of_int z) = None"
    then show ?thesis using assms by (simp add: fl_def)
  next
    assume "\<exists>m. 0 < m \<and> fl_pos (- of_int z) = Some (of_int m)"
    then obtain m where m: "0 < m" "fl_pos (- of_int z) = Some (of_int m)" by blast
    have "fl (of_int z) = Fin (of_int (- m))" using assms m by (simp add: fl_def)
    moreover have "- m < 0" using m by simp
    ultimately show ?thesis by blast
  qed
qed

lemma sign_fl_of_int:
  "js_sign (fl (of_int z)) = (if z < 0 then - 1 else if z = 0 then 0 else 1)"
proof -
  consider "z < 0" | "z = 0" | "0 < z" by linarith
  then show ?thesis
  proof cases
    case 1
    with fl_of_int_neg [OF 1] show ?thesis by auto
  next
    case 2
    then show ?thesis by (simp add: fl_zero)
  next
    case 3
    with fl_of_int_pos [OF 3] show ?thesis by auto
  qed
qed

text \<open>
  From \<open>2 ^ 53\<close> on, rounding identifies integers: 9007199254740993 is read as
  9007199254740992.
\<close>

lemma fl_near_2_53:
  "fl 9007199254740993 = Fin 9007199254740992"
  "fl 9007199254740992 = Fin 9007199254740992"
  by code_simp+

subsection \<open>The two comparison functions\<close>

lemma sign_fl_diff:
  "js_sign (fl (of_int y - of_int x)) = (if y < x then - 1 else if y = x then 0 else 1)"
  using sign_fl_of_int [of "y - x"] by simp

lemma cmpRec_sign:
  assumes "timestamp a = Some x" and "timestamp b = Some y"
  shows "(sortCompare (cmpRec a b) \<le> 0) = (y \<le> x)"
proof -
  have "cmpRec a b = fl (of_int y - of_int x)"
    using assms by (simp add: cmpRec_def dateValue_def)
  then show ?thesis
    by (simp add: sortCompare_def sign_fl_diff)
qed

lemma sortCompare_cmpRec:
  "(sortCompare (cmpRec a b) \<le> 0) =
     (case timestamp b of
        None \<Rightarrow> True
      | Some y \<Rightarrow> (case timestamp a of None \<Rightarrow> True | Some x \<Rightarrow> y \<le> x))"
  by (simp add: cmpRec_def dateValue_def sortCompare_def sign_fl_diff split: option.splits)

lemma notOlder_sortCompare: "notOlder a b \<Longrightarrow> sortCompare (cmpRec a b) \<le> 0"
  by (auto simp: notOlder_def cmpRec_sign split: option.splits)

lemma descending_sortCompare:
  assumes "descendingByTimestamp xs"
  shows "sorted_wrt (\<lambda>a b. sortCompare (cmpRec a b) \<le> 0) xs"
proof -
  have "sorted_wrt notOlder xs"
    using assms by (simp add: descendingByTimestamp_def)
  then show ?thesis
    by (rule sorted_wrt_mono_rel [rotated]) (rule notOlder_sortCompare)
qed

lemma js_sort_cmpRec:
  assumes "\<forall>r \<in> set xs. timestamp r \<noteq> None"
  shows "js_sort cmpRec xs = sort_key (\<lambda>r. - the (timestamp r)) xs"
proof (rule js_sort_sort_key)
  fix a b assume "a \<in> set xs" "b \<in> set xs"
  then obtain x y where "timestamp a = Some x" "timestamp b = Some y"
    using assms by (metis not_None_eq)
  then show "(sortCompare (cmpRec a b) \<le> 0) = (- the (timestamp a) \<le> - the (timestamp b))"
    by (simp add: cmpRec_sign)
qed

lemma descending_js_sort:
  assumes "\<forall>r \<in> set xs. timestamp r \<noteq> None"
  shows "descendingByTimestamp (js_sort cmpRec xs)"
proof -
  have "sorted (map (\<lambda>r. - the (timestamp r)) (sort_key (\<lambda>r. - the (timestamp r)) xs))"
    by (rule sorted_sort_key)
  then have "sorted_wrt (\<lambda>a b. - the (timestamp a) \<le> - the (timestamp b)) (js_sort cmpRec xs)"
    by (simp add: js_sort_cmpRec [OF assms] sorted_map)
  then have "sorted_wrt notOlder (js_sort cmpRec xs)"
  proof (rule sorted_wrt_mono_rel [rotated])
    fix a b
    assume "a \<in> set (js_sort cmpRec xs)" "b \<in> set (js_sort cmpRec xs)"
      and le: "- the (timestamp a) \<le> - the (timestamp b)"
    then obtain x y where "timestamp a = Some x" "timestamp b = Some y"
      using assms unfolding set_js_sort by (metis not_None_eq)
    then show "notOlder a b" using le by (simp add: notOlder_def)
  qed
  then show ?thesis by (simp add: descendingByTimestamp_def)
qed

lemma stable_js_sort_cmpRec:
  assumes "\<forall>r \<in> set xs. timestamp r \<noteq> None"
  shows "filter (\<lambda>r. timestamp r = t) (js_sort cmpRec xs) = filter (\<lambda>r. timestamp r = t) xs"
proof (cases t)
  case None
  have "filter (\<lambda>r. timestamp r = None) (js_sort cmpRec xs) = []"
    using assms by (simp add: filter_empty_conv set_js_sort)
  moreover have "filter (\<lambda>r. timestamp r = None) xs = []"
    using assms by (simp add: filter_empty_conv)
  ultimately show ?thesis using None by simp
next
  case (Some x)
  have key: "\<And>r. r \<in> set xs \<Longrightarrow> (timestamp r = Some x) = (- the (timestamp r) = - x)"
    using assms by (metis neg_equal_iff_equal not_None_eq option.sel)
  have "filter (\<lambda>r. timestamp r = Some x) (js_sort cmpRec xs) =
      filter (\<lambda>r. - the (timestamp r) = - x) (js_sort cmpRec xs)"
    by (rule filter_cong) (simp_all add: set_js_sort key)
  also have "\<dots> = filter (\<lambda>r. - the (timestamp r) = - x) xs"
    unfolding js_sort_cmpRec [OF assms] by (rule sort_key_stable)
  also have "\<dots> = filter (\<lambda>r. timestamp r = Some x) xs"
    by (rule filter_cong) (simp_all add: key)
  finally show ?thesis using Some by simp
qed

lemma js_sort_cmpRec_unique:
  assumes valid: "\<forall>r \<in> set xs. timestamp r \<noteq> None"
    and "mset ys = mset xs"
    and "descendingByTimestamp ys"
    and stable: "\<And>t. filter (\<lambda>r. timestamp r = t) ys = filter (\<lambda>r. timestamp r = t) xs"
  shows "ys = js_sort cmpRec xs"
proof -
  have sets: "set ys = set xs"
    using assms(2) by (rule mset_eq_setD)
  have key_eq: "\<And>k x. k \<in> set xs \<Longrightarrow> x \<in> set xs \<Longrightarrow>
      (- the (timestamp k) = - the (timestamp x)) = (timestamp x = timestamp k)"
  proof -
    fix k x assume "k \<in> set xs" "x \<in> set xs"
    then obtain a b where "timestamp k = Some a" "timestamp x = Some b"
      using valid by (metis not_None_eq)
    then show "(- the (timestamp k) = - the (timestamp x)) = (timestamp x = timestamp k)"
      by auto
  qed
  have "sorted_wrt notOlder ys"
    using assms(3) by (simp add: descendingByTimestamp_def)
  then have "sorted_wrt (\<lambda>a b. - the (timestamp a) \<le> - the (timestamp b)) ys"
    by (rule sorted_wrt_mono_rel [rotated]) (auto simp: notOlder_def split: option.splits)
  then have s: "sorted (map (\<lambda>r. - the (timestamp r)) ys)"
    by (simp add: sorted_map)
  have st: "\<And>k. k \<in> set ys \<Longrightarrow>
      filter (\<lambda>x. - the (timestamp k) = - the (timestamp x)) ys =
      filter (\<lambda>x. - the (timestamp k) = - the (timestamp x)) xs"
  proof -
    fix k assume k: "k \<in> set ys"
    have "filter (\<lambda>x. - the (timestamp k) = - the (timestamp x)) ys =
        filter (\<lambda>x. timestamp x = timestamp k) ys"
      using k sets by (intro filter_cong refl key_eq) simp_all
    also have "\<dots> = filter (\<lambda>x. timestamp x = timestamp k) xs"
      by (rule stable)
    also have "\<dots> = filter (\<lambda>x. - the (timestamp k) = - the (timestamp x)) xs"
      using k sets by (intro filter_cong refl key_eq [symmetric]) simp_all
    finally show "filter (\<lambda>x. - the (timestamp k) = - the (timestamp x)) ys =
        filter (\<lambda>x. - the (timestamp k) = - the (timestamp x)) xs" .
  qed
  have "sort_key (\<lambda>r. - the (timestamp r)) xs = ys"
    using assms(2) st s by (rule properties_for_sort_key)
  then show ?thesis by (simp add: js_sort_cmpRec [OF valid])
qed

lemma isDigit_value: "isDigit c \<Longrightarrow> 0 \<le> of_char c - (48::int)"
  unfolding isDigit_def by auto

lemma foldl_digits_nonneg:
  "\<forall>c \<in> set ds. isDigit c \<Longrightarrow> 0 \<le> n \<Longrightarrow>
     0 \<le> foldl (\<lambda>n c. 10 * n + (of_char c - (48::int))) n ds"
proof (induction ds arbitrary: n)
  case Nil
  then show ?case by simp
next
  case (Cons c ds)
  have "0 \<le> 10 * n + (of_char c - (48::int))"
    using Cons.prems isDigit_value [of c] by simp
  then show ?case using Cons by simp
qed

lemma idInteger_nonneg: "0 \<le> idInteger e"
  unfolding idInteger_def digitsValue_def stripNonDigits_def
  by (rule foldl_digits_nonneg) simp_all

lemma parseInt_stripNonDigits:
  "parseInt (stripNonDigits s) =
     (if stripNonDigits s = [] then NaN else fl (of_int (digitsValue (stripNonDigits s))))"
proof -
  have tw: "takeWhile isDigit (stripNonDigits s) = stripNonDigits s"
    by (simp add: stripNonDigits_def takeWhile_eq_all_conv)
  show ?thesis unfolding parseInt_def Let_def tw by simp
qed

lemma orZero_fl_of_int: "0 \<le> z \<Longrightarrow> orZero (fl (of_int z)) = fl (of_int z)"
proof (cases "z = 0")
  case True
  then show ?thesis by (simp add: orZero_def fl_zero)
next
  case False
  assume "0 \<le> z"
  with False have "0 < z" by simp
  from fl_of_int_pos [OF this] show ?thesis by (auto simp: orZero_def)
qed

lemma expNum_eq: "expNum e = fl (of_int (idInteger e))"
proof (cases "stripNonDigits (exp_id e) = []")
  case True
  then show ?thesis
    by (simp add: expNum_def parseInt_def idInteger_def digitsValue_def orZero_def fl_zero)
next
  case False
  then have "expNum e = orZero (fl (of_int (idInteger e)))"
    by (simp add: expNum_def parseInt_stripNonDigits idInteger_def)
  then show ?thesis by (simp add: orZero_fl_of_int idInteger_nonneg)
qed

lemma expNum_cases: "expNum e = PosInf \<or> (\<exists>m. 0 \<le> m \<and> expNum e = Fin (of_int m))"
proof (cases "idInteger e = 0")
  case True
  then have "expNum e = Fin (of_int 0)" by (simp add: expNum_eq fl_zero)
  then show ?thesis by blast
next
  case False
  then have "0 < idInteger e" using idInteger_nonneg [of e] by simp
  from fl_of_int_pos [OF this] show ?thesis
    unfolding expNum_eq by (metis less_imp_le)
qed

lemma expNum_small: "idInteger e < 2 ^ 53 \<Longrightarrow> expNum e = Fin (of_int (idInteger e))"
  by (simp add: expNum_eq fl_of_int_small idInteger_nonneg)

lemma cmpExp_sign_ordKey: "(sortCompare (cmpExp a b) \<le> 0) = (ordKey (expNum a) \<le> ordKey (expNum b))"
proof -
  from expNum_cases [of a] expNum_cases [of b] show ?thesis
  proof (elim disjE exE conjE)
    assume "expNum a = PosInf" "expNum b = PosInf"
    then show ?thesis by (simp add: cmpExp_def sortCompare_def ordKey_def)
  next
    fix m assume "expNum a = PosInf" "expNum b = Fin (of_int m)"
    then show ?thesis by (simp add: cmpExp_def sortCompare_def ordKey_def)
  next
    fix m assume "expNum a = Fin (of_int m)" "expNum b = PosInf"
    then show ?thesis by (simp add: cmpExp_def sortCompare_def ordKey_def)
  next
    fix m n assume "expNum a = Fin (of_int m)" "expNum b = Fin (of_int n)"
    then show ?thesis
      by (simp add: cmpExp_def sortCompare_def sign_fl_diff ordKey_def)
  qed
qed

lemma ordKey_le_num_le:
  "ordKey (expNum a) \<le> ordKey (expNum b) \<Longrightarrow> num_le (expNum a) (expNum b)"
  using expNum_cases [of a] expNum_cases [of b]
  by (auto simp: ordKey_def num_le_def)

lemma ordKey_expNum_eq: "(ordKey (expNum a) = ordKey k) = (expNum a = k) \<or> (k \<noteq> PosInf \<and> (\<forall>q. k \<noteq> Fin q))"
  using expNum_cases [of a]
  by (cases k) (auto simp: ordKey_def)

lemma js_sort_cmpExp: "js_sort cmpExp xs = sort_key (\<lambda>e. ordKey (expNum e)) xs"
  by (rule js_sort_sort_key) (rule cmpExp_sign_ordKey)

lemma js_sort_cmpExp_small:
  assumes "\<forall>e \<in> set xs. idInteger e < 2 ^ 53"
  shows "js_sort cmpExp xs = sort_key idInteger xs"
proof (rule js_sort_sort_key)
  fix a b assume "a \<in> set xs" "b \<in> set xs"
  then have a: "expNum a = Fin (of_int (idInteger a))" and b: "expNum b = Fin (of_int (idInteger b))"
    using assms by (simp_all add: expNum_small)
  show "(sortCompare (cmpExp a b) \<le> 0) = (idInteger a \<le> idInteger b)"
    by (simp add: cmpExp_def a b sortCompare_def sign_fl_diff)
qed

lemma sorted_js_sort_cmpExp:
  "sorted_wrt (\<lambda>a b. num_le (expNum a) (expNum b)) (js_sort cmpExp xs)"
proof -
  have "sorted (map (\<lambda>e. ordKey (expNum e)) (sort_key (\<lambda>e. ordKey (expNum e)) xs))"
    by (rule sorted_sort_key)
  then have "sorted_wrt (\<lambda>a b. ordKey (expNum a) \<le> ordKey (expNum b)) (js_sort cmpExp xs)"
    by (simp add: js_sort_cmpExp sorted_map)
  then show ?thesis
    by (rule sorted_wrt_mono_rel [rotated]) (rule ordKey_le_num_le)
qed

lemma stable_js_sort_cmpExp:
  "filter (\<lambda>e. expNum e = k) (js_sort cmpExp xs) = filter (\<lambda>e. expNum e = k) xs"
proof (cases "k = PosInf \<or> (\<exists>q. k = Fin q)")
  case True
  then have eq: "\<And>e. (expNum e = k) = (ordKey (expNum e) = ordKey k)"
    using ordKey_expNum_eq by blast
  show ?thesis
    unfolding eq js_sort_cmpExp by (rule sort_key_stable)
next
  case False
  then have "\<And>e. expNum e \<noteq> k" using expNum_cases by metis
  then show ?thesis by simp
qed

text \<open>
  The order of the experiments does not depend on the sorting method: any arrangement of
  the same experiments that is ascending in the sort key and keeps experiments of one key
  in their order is the one computed here.
\<close>

lemma js_sort_cmpExp_unique:
  assumes "mset ys = mset xs"
    and "sorted_wrt (\<lambda>a b. num_le (expNum a) (expNum b)) ys"
    and "\<And>k. filter (\<lambda>e. expNum e = k) ys = filter (\<lambda>e. expNum e = k) xs"
  shows "ys = js_sort cmpExp xs"
proof -
  have le: "\<And>a b. num_le (expNum a) (expNum b) \<Longrightarrow> ordKey (expNum a) \<le> ordKey (expNum b)"
  proof -
    fix a b assume "num_le (expNum a) (expNum b)"
    then show "ordKey (expNum a) \<le> ordKey (expNum b)"
      using expNum_cases [of a] expNum_cases [of b]
      by (auto simp: ordKey_def num_le_def)
  qed
  have "sorted_wrt (\<lambda>a b. ordKey (expNum a) \<le> ordKey (expNum b)) ys"
    using assms(2) by (rule sorted_wrt_mono_rel [rotated]) (rule le)
  then have s: "sorted (map (\<lambda>e. ordKey (expNum e)) ys)"
    by (simp add: sorted_map)
  have st: "\<And>k. k \<in> set ys \<Longrightarrow>
      filter (\<lambda>x. ordKey (expNum k) = ordKey (expNum x)) ys =
      filter (\<lambda>x. ordKey (expNum k) = ordKey (expNum x)) xs"
  proof -
    fix k
    have eq: "\<And>x. (ordKey (expNum k) = ordKey (expNum x)) = (expNum x = expNum k)"
      using expNum_cases by (metis ordKey_expNum_eq)
    show "filter (\<lambda>x. ordKey (expNum k) = ordKey (expNum x)) ys =
      filter (\<lambda>x. ordKey (expNum k) = ordKey (expNum x)) xs"
      unfolding eq by (rule assms(3))
  qed
  have "sort_key (\<lambda>e. ordKey (expNum e)) xs = ys"
    using assms(1) st s by (rule properties_for_sort_key)
  then show ?thesis by (simp add: js_sort_cmpExp)
qed

subsection \<open>Rendering never throws\<close>

lemma andThen_Inr: "andThen (Inr x) f = f x"
  by (simp add: andThen_def)

lemma formatNum_card_text: "k \<le> 100 \<Longrightarrow> formatNum_card tostr v k = Inr (cardText tostr v k)"
  by (simp add: formatNum_card_def cardText_def toFixed_def)

lemma formatNum_row_text: "k \<le> 100 \<Longrightarrow> formatNum_row tostr v k = Inr (rowText tostr v k)"
  by (simp add: formatNum_row_def rowText_def toFixed_def)

lemma createRecommendationCard_total:
  "createRecommendationCard tostr r = Inr (cardOf tostr r)"
proof -
  have "\<exists>c. createRecommendationCard tostr r = Inr c"
    by (simp add: createRecommendationCard_def Let_def formatNum_card_text andThen_Inr)
  then show ?thesis by (auto simp: cardOf_def)
qed

lemma createExperimentRow_total:
  "createExperimentRow tostr e = Inr (rowOf tostr e)"
proof -
  have "\<exists>c. createExperimentRow tostr e = Inr c"
    by (simp add: createExperimentRow_def Let_def formatNum_row_text andThen_Inr)
  then show ?thesis by (auto simp: rowOf_def)
qed

lemma card_status_cardOf: "card_status (cardOf tostr r) = status r"
  by (simp add: cardOf_def createRecommendationCard_def Let_def formatNum_card_text andThen_Inr)

lemma card_rec_id_cardOf: "card_rec_id (cardOf tostr r) = rec_id r"
  by (simp add: cardOf_def createRecommendationCard_def Let_def formatNum_card_text andThen_Inr)

lemma card_p_feasible_cardOf:
  "card_p_feasible (cardOf tostr r) =
     cardText tostr
       (Number (js_times
          (toNumber (p_feasible (case predictions r of None \<Rightarrow> noPredictions | Some p \<Rightarrow> p)))
          (Fin 100))) 1"
  by (simp add: cardOf_def createRecommendationCard_def Let_def formatNum_card_text andThen_Inr)

lemma row_exp_id_rowOf: "row_exp_id (rowOf tostr e) = exp_id e"
  by (simp add: rowOf_def createExperimentRow_def Let_def formatNum_row_text andThen_Inr)

lemma row_source_rowOf:
  "row_source (rowOf tostr e) = (if source e = [] then ''imported'' else source e)"
  by (simp add: rowOf_def createExperimentRow_def Let_def formatNum_row_text andThen_Inr)

lemma rowOf_ids: "map (row_exp_id \<circ> rowOf tostr) xs = map exp_id xs"
  by (simp add: row_exp_id_rowOf)

lemma cardOf_ids: "map (card_rec_id \<circ> cardOf tostr) xs = map rec_id xs"
  by (simp add: card_rec_id_cardOf)

lemma cardOf_statuses: "map (card_status \<circ> cardOf tostr) xs = map status xs"
  by (simp add: card_status_cardOf)

lemma mapM_total: "(\<And>x. f x = Inr (g x)) \<Longrightarrow> mapM f xs = Inr (map g xs)"
  by (induction xs) (simp_all add: andThen_Inr)

lemma updateRecommendations_eq:
  "updateRecommendations tostr (st, d) =
     Done (afterRecommendations st, d\<lparr>recommendations_list := recommendationsFragment tostr st\<rparr>)"
  by (simp add: updateRecommendations_def Let_def afterRecommendations_def
      recommendationsFragment_def mapM_total [OF createRecommendationCard_total])

lemma updateExperimentsTable_eq:
  "updateExperimentsTable tostr (st, d) =
     Done (afterExperiments st, d\<lparr>experiments_tbody := experimentsFragment tostr st\<rparr>)"
  by (simp add: updateExperimentsTable_def Let_def afterExperiments_def
      experimentsFragment_def mapM_total [OF createExperimentRow_total])

subsection \<open>The state after rendering\<close>

lemma mset_sortedRecommendations:
  "mset (sortedRecommendations st) = mset (filteredRecommendations st)"
  by (simp add: sortedRecommendations_def mset_js_sort)

lemma mset_sortedExperiments:
  "mset (sortedExperiments st) = mset (filteredExperiments st)"
  by (simp add: sortedExperiments_def mset_js_sort)

lemma sortedRecommendations_Nil: "(sortedRecommendations st = []) = (filteredRecommendations st = [])"
  by (simp add: sortedRecommendations_def js_sort_Nil_iff)

lemma sortedExperiments_Nil: "(sortedExperiments st = []) = (filteredExperiments st = [])"
  by (simp add: sortedExperiments_def js_sort_Nil_iff)

lemma status_sortedRecommendations:
  assumes "currentFilter st \<noteq> ''all''" and "r \<in> set (sortedRecommendations st)"
  shows "status r = currentFilter st"
  using assms by (simp add: sortedRecommendations_def set_js_sort filteredRecommendations_def)

lemma afterRecommendations_fields:
  "currentFilter (afterRecommendations st) = currentFilter st"
  "currentSource (afterRecommendations st) = currentSource st"
  "experiments (afterRecommendations st) = experiments st"
  "isLoading (afterRecommendations st) = isLoading st"
  by (simp_all add: afterRecommendations_def)

lemma afterExperiments_fields:
  "currentFilter (afterExperiments st) = currentFilter st"
  "currentSource (afterExperiments st) = currentSource st"
  "recommendations (afterExperiments st) = recommendations st"
  "isLoading (afterExperiments st) = isLoading st"
  by (simp_all add: afterExperiments_def)

lemma mset_afterRecommendations:
  "mset (recommendations (afterRecommendations st)) = mset (recommendations st)"
  by (simp add: afterRecommendations_def sortedRecommendations_def filteredRecommendations_def
      mset_js_sort)

lemma mset_afterExperiments:
  "mset (experiments (afterExperiments st)) = mset (experiments st)"
  by (simp add: afterExperiments_def sortedExperiments_def filteredExperiments_def mset_js_sort)

lemma count_afterRecommendations:
  "length (filter P (recommendations (afterRecommendations st))) =
     length (filter P (recommendations st))"
  by (metis mset_afterRecommendations mset_filter size_mset)

lemma experimentsFragment_afterRecommendations:
  "experimentsFragment tostr (afterRecommendations st) = experimentsFragment tostr st"
  by (simp add: experimentsFragment_def sortedExperiments_def filteredExperiments_def
      afterRecommendations_fields)

lemma updateUI_eq:
  "updateUI tostr (st, d) =
     Done (updateBadges
       (afterExperiments (afterRecommendations st),
        (snd (updateStats (st, d)))
          \<lparr>recommendations_list := recommendationsFragment tostr st,
           experiments_tbody := experimentsFragment tostr st\<rparr>))"
  by (simp add: updateUI_def updateStats_def Let_def updateRecommendations_eq
      updateExperimentsTable_eq experimentsFragment_afterRecommendations)

lemma loadData_failed:
  "failedFetch expResponse \<or> failedFetch recResponse \<Longrightarrow>
     loadData tostr expResponse recResponse w = showError loadMessage w"
  by (auto simp: loadData_def failedFetch_def split: response.splits body.splits)

lemma loadData_success:
  "loadData tostr (Response True (Json (JsonDoc es))) (Response True (Json (JsonDoc rs))) (st, d) =
     outcome (updateUI tostr
       (st\<lparr>experiments := (case es of None \<Rightarrow> [] | Some xs \<Rightarrow> xs),
           recommendations := (case rs of None \<Rightarrow> [] | Some xs \<Rightarrow> xs),
           isLoading := False\<rparr>, d))"
  by (simp add: loadData_def Let_def updateUI_eq)

lemma not_isError_fragments:
  "\<not> isError (recommendationsFragment tostr st)" "\<not> isError (experimentsFragment tostr st)"
  by (simp_all add: isError_def recommendationsFragment_def experimentsFragment_def)

subsection \<open>Facts about the sample data\<close>

lemma sampleExperiment_fields:
  "exp_id (sampleExperiment i s) = i" "source (sampleExperiment i s) = s"
  by (simp_all add: sampleExperiment_def)

lemma sampleRecommendation_fields:
  "rec_id (sampleRecommendation i s t) = i" "status (sampleRecommendation i s t) = s"
  "timestamp (sampleRecommendation i s t) = Some t"
  by (simp_all add: sampleRecommendation_def)

lemma undatedRecommendation_fields:
  "rec_id (undatedRecommendation i s) = i" "status (undatedRecommendation i s) = s"
  "timestamp (undatedRecommendation i s) = None"
  by (simp_all add: undatedRecommendation_def)

lemma idInteger_sample: "idInteger (sampleExperiment i s) = digitsValue (stripNonDigits i)"
  by (simp add: idInteger_def sampleExperiment_def)

lemma digits_eval:
  "digitsValue (stripNonDigits ''E1'') = 1"
  "digitsValue (stripNonDigits ''E2'') = 2"
  "digitsValue (stripNonDigits ''E10'') = 10"
  "digitsValue (stripNonDigits ''E9007199254740992'') = 9007199254740992"
  "digitsValue (stripNonDigits ''E9007199254740993'') = 9007199254740993"
  by (simp_all add: digitsValue_def stripNonDigits_def isDigit_def)

lemma textOf_small:
  "textOf 0 = ''0''" "textOf (Suc 0) = ''1''" "textOf (Suc (Suc 0)) = ''2''"
  "textOf (Suc (Suc (Suc 0))) = ''3''"
  by (simp_all add: textOf_def decimal.simps digitChar_def)

subsection \<open>The experiments table (claim C1)\<close>

text \<open>
  Claim C1, as amended. For every state, the rendering of the experiments ends normally
  and the table shows: the empty-state fragment when no experiment passes the source
  filter, otherwise the rows, in order, of the sorted experiments, each with the id of its
  experiment. The sorted experiments are, up to order, those whose source is the current
  source (all of them under \<open>all\<close>). They are in ascending order of the number
  \<open>parseInt\<close> gives for the digits of the id, which is the binary64 value nearest to the
  integer the digits write (0 for an id without digits), and experiments of one such number
  keep the order they were loaded in. When every such integer is below \<open>2 ^ 53\<close> this is
  the order the specification words: ascending by that integer, stable.
\<close>

theorem experiments_view:
  "let shown = sortedExperiments st;
       visible = (if currentSource st = ''all'' then experiments st
                  else filter (\<lambda>e. source e = currentSource st) (experiments st));
       d' = snd (outcome (updateExperimentsTable tostr (st, d)))
   in (\<exists>st'. updateExperimentsTable tostr (st, d) = Done (st', d')) \<and>
      experiments_tbody d' =
        (if shown = [] then EmptyState experimentsEmptyText
         else Items (map (rowOf tostr) shown)) \<and>
      map row_exp_id (map (rowOf tostr) shown) = map exp_id shown \<and>
      mset shown = mset visible \<and>
      sorted_wrt (\<lambda>a b. num_le (expNum a) (expNum b)) shown \<and>
      (\<forall>k. filter (\<lambda>e. expNum e = k) shown = filter (\<lambda>e. expNum e = k) visible) \<and>
      (\<forall>e. expNum e = fl (of_int (idInteger e))) \<and>
      ((\<forall>e \<in> set (experiments st). idInteger e < 2 ^ 53) \<longrightarrow> shown = spec_experiments_view st)"
proof -
  have vis: "filteredExperiments st =
      (if currentSource st = ''all'' then experiments st
       else filter (\<lambda>e. source e = currentSource st) (experiments st))"
    by (simp add: filteredExperiments_def)
  have view: "experiments_tbody (snd (outcome (updateExperimentsTable tostr (st, d)))) =
      (if sortedExperiments st = [] then EmptyState experimentsEmptyText
       else Items (map (rowOf tostr) (sortedExperiments st)))"
    by (simp add: updateExperimentsTable_eq experimentsFragment_def)
  have members: "mset (sortedExperiments st) = mset (filteredExperiments st)"
    by (rule mset_sortedExperiments)
  have order: "sorted_wrt (\<lambda>a b. num_le (expNum a) (expNum b)) (sortedExperiments st)"
    unfolding sortedExperiments_def by (rule sorted_js_sort_cmpExp)
  have stable: "\<forall>k. filter (\<lambda>e. expNum e = k) (sortedExperiments st) =
      filter (\<lambda>e. expNum e = k) (filteredExperiments st)"
    unfolding sortedExperiments_def by (simp add: stable_js_sort_cmpExp)
  have small: "(\<forall>e \<in> set (experiments st). idInteger e < 2 ^ 53) \<longrightarrow>
      sortedExperiments st = spec_experiments_view st"
  proof
    assume "\<forall>e \<in> set (experiments st). idInteger e < 2 ^ 53"
    then have "\<forall>e \<in> set (filteredExperiments st). idInteger e < 2 ^ 53"
      by (simp add: filteredExperiments_def)
    then have "js_sort cmpExp (filteredExperiments st) = sort_key idInteger (filteredExperiments st)"
      by (rule js_sort_cmpExp_small)
    then show "sortedExperiments st = spec_experiments_view st"
      by (simp add: sortedExperiments_def spec_experiments_view_def vis)
  qed
  show ?thesis
    unfolding Let_def vis [symmetric]
    using view members order stable small
    by (simp add: updateExperimentsTable_eq row_exp_id_rowOf expNum_eq [symmetric])
qed

text \<open>
  The example of the claim: the ids E2, E10, E1 are shown in the order E1, E2, E10.
\<close>

theorem experiments_view_sample:
  "list_all (\<lambda>e. idInteger e < 2 ^ 53) (experiments mixedState) \<and>
   map row_exp_id
     (items (experiments_tbody (snd (outcome (updateExperimentsTable noText (mixedState, blankPage))))))
     = [''E1'', ''E2'', ''E10'']"
proof -
  have small: "\<forall>e \<in> set (experiments mixedState). idInteger e < 2 ^ 53"
    by (simp add: mixedState_def idInteger_sample digits_eval)
  have spec: "map exp_id (spec_experiments_view mixedState) = [''E1'', ''E2'', ''E10'']"
    by (simp add: spec_experiments_view_def mixedState_def idInteger_sample digits_eval
        sampleExperiment_fields)
  have ne: "spec_experiments_view mixedState \<noteq> []"
    using spec by auto
  from experiments_view [of mixedState noText blankPage] small
  have "sortedExperiments mixedState = spec_experiments_view mixedState"
    and "experiments_tbody (snd (outcome (updateExperimentsTable noText (mixedState, blankPage)))) =
      (if sortedExperiments mixedState = [] then EmptyState experimentsEmptyText
       else Items (map (rowOf noText) (sortedExperiments mixedState)))"
    unfolding Let_def by blast+
  then show ?thesis
    using small spec ne by (simp add: list_all_iff rowOf_ids)
qed

text \<open>
  The claim as it was stated fails there: the ids E9007199254740993 and
  E9007199254740992, loaded in this order, are shown in this order, since both are read as
  the same number and the sort is stable; in ascending order of the integers the second
  comes first.
\<close>

theorem experiments_view_counterexample:
  "map row_exp_id
     (items (experiments_tbody (snd (outcome (updateExperimentsTable noText (bigIdState, blankPage))))))
     = [''E9007199254740993'', ''E9007199254740992''] \<and>
   map exp_id (spec_experiments_view bigIdState) = [''E9007199254740992'', ''E9007199254740993'']"
proof -
  have keys: "expNum (sampleExperiment ''E9007199254740993'' ''manual'') = Fin 9007199254740992"
    "expNum (sampleExperiment ''E9007199254740992'' ''manual'') = Fin 9007199254740992"
    by (simp_all add: expNum_eq idInteger_sample digits_eval fl_near_2_53)
  have shown: "sortedExperiments bigIdState =
      [sampleExperiment ''E9007199254740993'' ''manual'',
       sampleExperiment ''E9007199254740992'' ''manual'']"
    by (simp add: sortedExperiments_def filteredExperiments_def js_sort_def bigIdState_def
        cmpExp_sign_ordKey keys)
  have spec: "map exp_id (spec_experiments_view bigIdState) =
      [''E9007199254740992'', ''E9007199254740993'']"
    by (simp add: spec_experiments_view_def bigIdState_def idInteger_sample digits_eval
        sampleExperiment_fields)
  show ?thesis
    using spec by (simp add: updateExperimentsTable_eq experimentsFragment_def shown
        row_exp_id_rowOf sampleExperiment_fields)
qed

subsection \<open>The recommendations list (claim C2)\<close>

text \<open>
  Claim C2, as amended. For every state, the rendering of the recommendations ends
  normally and the list shows the empty-state fragment when no recommendation passes the
  filter, otherwise cards. The cards are, up to order, the cards of the recommendations
  whose status is the current filter (all of them under \<open>all\<close>), each with the id and the
  status of its recommendation, so under a filter other than \<open>all\<close> every card shown has
  the filter as status. When every recommendation that passes the filter has a valid time
  value, the cards are in descending order of time value, recommendations of one time value
  in the order they were loaded in.
\<close>

theorem recommendations_view:
  "let visible = (if currentFilter st = ''all'' then recommendations st
                  else filter (\<lambda>r. status r = currentFilter st) (recommendations st));
       shown = sortedRecommendations st;
       d' = snd (outcome (updateRecommendations tostr (st, d)));
       cards = items (recommendations_list d')
   in (\<exists>st'. updateRecommendations tostr (st, d) = Done (st', d')) \<and>
      recommendations_list d' =
        (if visible = [] then EmptyState (recommendationsEmptyText (currentFilter st))
         else Items cards) \<and>
      mset cards = mset (map (cardOf tostr) visible) \<and>
      (\<forall>r. card_rec_id (cardOf tostr r) = rec_id r \<and> card_status (cardOf tostr r) = status r) \<and>
      (currentFilter st \<noteq> ''all'' \<longrightarrow> list_all (\<lambda>c. card_status c = currentFilter st) cards) \<and>
      ((\<forall>r \<in> set visible. timestamp r \<noteq> None) \<longrightarrow>
         cards = map (cardOf tostr) shown \<and>
         mset shown = mset visible \<and>
         descendingByTimestamp shown \<and>
         (\<forall>t. filter (\<lambda>r. timestamp r = t) shown = filter (\<lambda>r. timestamp r = t) visible))"
proof -
  have vis: "filteredRecommendations st =
      (if currentFilter st = ''all'' then recommendations st
       else filter (\<lambda>r. status r = currentFilter st) (recommendations st))"
    by (simp add: filteredRecommendations_def)
  have view: "recommendations_list (snd (outcome (updateRecommendations tostr (st, d)))) =
      (if filteredRecommendations st = []
       then EmptyState (recommendationsEmptyText (currentFilter st))
       else Items (map (cardOf tostr) (sortedRecommendations st)))"
    by (simp add: updateRecommendations_eq recommendationsFragment_def sortedRecommendations_Nil)
  have cards: "items (recommendations_list (snd (outcome (updateRecommendations tostr (st, d))))) =
      map (cardOf tostr) (sortedRecommendations st)"
    unfolding view by (simp add: sortedRecommendations_Nil [symmetric])
  have members: "mset (sortedRecommendations st) = mset (filteredRecommendations st)"
    by (rule mset_sortedRecommendations)
  have cardset: "mset (map (cardOf tostr) (sortedRecommendations st)) =
      mset (map (cardOf tostr) (filteredRecommendations st))"
    using members by (metis mset_map)
  have statuses: "currentFilter st \<noteq> ''all'' \<longrightarrow>
      list_all (\<lambda>c. card_status c = currentFilter st)
        (map (cardOf tostr) (sortedRecommendations st))"
    by (auto simp: list_all_iff card_status_cardOf status_sortedRecommendations)
  have order: "(\<forall>r \<in> set (filteredRecommendations st). timestamp r \<noteq> None) \<longrightarrow>
      descendingByTimestamp (sortedRecommendations st) \<and>
      (\<forall>t. filter (\<lambda>r. timestamp r = t) (sortedRecommendations st) =
           filter (\<lambda>r. timestamp r = t) (filteredRecommendations st))"
    unfolding sortedRecommendations_def
    by (simp add: descending_js_sort stable_js_sort_cmpRec)
  show ?thesis
    unfolding Let_def vis [symmetric] cards
    using view members cardset statuses order
    by (simp add: updateRecommendations_eq card_rec_id_cardOf card_status_cardOf)
qed

text \<open>
  An instance: of four recommendations two are pending, and one that is not pending has
  no date; under the filter \<open>pending\<close> the list shows the two, the more recent first.
\<close>

theorem recommendations_view_sample:
  "currentFilter partlyDatedState \<noteq> ''all'' \<and>
   list_all (\<lambda>r. timestamp r \<noteq> None)
     (filter (\<lambda>r. status r = ''pending'') (recommendations partlyDatedState)) \<and>
   map card_rec_id
     (items (recommendations_list
        (snd (outcome (updateRecommendations noText (partlyDatedState, blankPage))))))
     = [''R3'', ''R1''] \<and>
   map card_status
     (items (recommendations_list
        (snd (outcome (updateRecommendations noText (partlyDatedState, blankPage))))))
     = [''pending'', ''pending''] \<and>
   descendingByTimestamp (sortedRecommendations partlyDatedState)"
proof -
  have shown: "sortedRecommendations partlyDatedState =
      [sampleRecommendation ''R3'' ''pending'' 300, sampleRecommendation ''R1'' ''pending'' 100]"
    by (simp add: sortedRecommendations_def filteredRecommendations_def js_sort_def
        sortCompare_cmpRec partlyDatedState_def sampleRecommendation_fields
        undatedRecommendation_fields)
  have filt: "currentFilter partlyDatedState = ''pending''"
    by (simp add: partlyDatedState_def)
  have valid: "\<forall>r \<in> set (filter (\<lambda>r. status r = ''pending'') (recommendations partlyDatedState)).
      timestamp r \<noteq> None"
    by (simp add: partlyDatedState_def sampleRecommendation_fields undatedRecommendation_fields)
  show ?thesis
    using recommendations_view [of partlyDatedState noText blankPage] valid
    unfolding Let_def shown filt
    by (simp add: list_all_iff card_rec_id_cardOf card_status_cardOf sampleRecommendation_fields)
qed

text \<open>
  The claim as it was stated fails when a recommendation that passes the filter has no
  valid date. Every comparison with it gives not-a-number, read as zero, so loaded in the
  order R1 (time value 100), R3 (no date), R2 (time value 200) the three stay in this
  order: R1 is shown before the more recent R2. (The engine V8 gives the same order: each
  neighbouring pair compares as equal, so it takes the array for sorted.)
\<close>

theorem recommendations_view_counterexample:
  "map (\<lambda>r. (rec_id r, timestamp r)) (recommendations undatedState) =
     [(''R1'', Some 100), (''R3'', None), (''R2'', Some 200)] \<and>
   map card_rec_id
     (items (recommendations_list
        (snd (outcome (updateRecommendations noText (undatedState, blankPage))))))
     = [''R1'', ''R3'', ''R2'']"
proof -
  have shown: "sortedRecommendations undatedState =
      [sampleRecommendation ''R1'' ''pending'' 100, undatedRecommendation ''R3'' ''pending'',
       sampleRecommendation ''R2'' ''pending'' 200]"
    by (simp add: sortedRecommendations_def filteredRecommendations_def js_sort_def
        sortCompare_cmpRec undatedState_def sampleRecommendation_fields
        undatedRecommendation_fields)
  show ?thesis
    by (simp add: updateRecommendations_eq recommendationsFragment_def shown
        card_rec_id_cardOf)
      (simp add: undatedState_def sampleRecommendation_fields undatedRecommendation_fields)
qed

subsection \<open>The number formatters (claim C3)\<close>

text \<open>
  Claim C3, where the file departs from it. The formatter of the cards has no test for
  not-a-number, which the formatter of the rows has: not-a-number is printed as NaN on a
  card and as two dashes in a row. A card meets it: with no \<open>p_feasible\<close> (here no
  \<open>predictions\<close> at all) the product \<open>p_feasible * 100\<close> is not a number, and the card
  shows NaN.
\<close>

theorem card_formatter_prints_NaN:
  "formatNum_card tostr (Number NaN) 1 = Inr ''NaN'' \<and>
   formatNum_row tostr (Number NaN) 1 = Inr ''--'' \<and>
   map_sum id card_p_feasible
     (createRecommendationCard tostr (sampleRecommendation ''R1'' ''pending'' 1700000000000)) =
     Inr ''NaN''"
  by (simp add: formatNum_card_def formatNum_row_def isNaN_def toFixed_def fixedText_def
      createRecommendationCard_total card_p_feasible_cardOf cardText_def js_times_def
      sampleRecommendation_def noPredictions_def)

lemma fixedDigits_examples:
  "fixedDigits (3537115888337719 / 1125899906842624) 2 = ''3.14''"
  "fixedDigits 0 0 = ''0''"
proof -
  have a: "\<lfloor>(3537115888337719 / 1125899906842624 :: rat) * 10 ^ 2 + 1 / 2\<rfloor> = 314"
    by (simp add: floor_eq_iff)
  have b: "\<lfloor>(0 :: rat) * 10 ^ 0 + 1 / 2\<rfloor> = 0"
    by (simp add: floor_eq_iff)
  have c: "decimal 314 = ''314''" "decimal 0 = ''0''"
    by (simp_all add: decimal.simps digitChar_def)
  show "fixedDigits (3537115888337719 / 1125899906842624) 2 = ''3.14''"
    unfolding fixedDigits_def Let_def a c by simp
  show "fixedDigits 0 0 = ''0''"
    unfolding fixedDigits_def Let_def b c by simp
qed

text \<open>
  The examples of claim C3: \<open>null\<close> gives two dashes, 3.14159 (the binary64 value
  nearest to it) with two decimals gives 3.14, and 0 with no decimals gives 0.
\<close>

lemma formatNum_examples:
  "formatNum_row tostr Null 2 = Inr ''--''"
  "formatNum_row tostr Undefined 2 = Inr ''--''"
  "formatNum_row tostr (Number NaN) 2 = Inr ''--''"
  "formatNum_row tostr (Number (Fin (3537115888337719 / 1125899906842624))) 2 = Inr ''3.14''"
  "formatNum_row tostr (Number (Fin 0)) 0 = Inr ''0''"
  "formatNum_card tostr Null 2 = Inr ''--''"
  "formatNum_card tostr Undefined 2 = Inr ''--''"
  "formatNum_card tostr (Number (Fin (3537115888337719 / 1125899906842624))) 2 = Inr ''3.14''"
  "formatNum_card tostr (Number (Fin 0)) 0 = Inr ''0''"
  by (simp_all add: formatNum_row_def formatNum_card_def isNaN_def toFixed_def fixedText_def
      fixedDigits_examples)

text \<open>
  Where \<open>toFixed\<close> gives no fixed decimals: an infinity, a magnitude of \<open>10 ^ 21\<close> or
  more, and more than 100 decimals, which it refuses.
\<close>

lemma formatNum_not_fixed:
  "formatNum_row tostr (Number PosInf) 2 = Inr ''Infinity''"
  "formatNum_row tostr (Number (Fin (10 ^ 21))) 2 = Inr (tostr (10 ^ 21))"
  "formatNum_row tostr (Number (Fin 1)) 101 = Inl RangeError"
  by (simp_all add: formatNum_row_def isNaN_def toFixed_def fixedText_def)

text \<open>
  Below \<open>10 ^ 21\<close>, and for a positive number of decimals, the digits \<open>toFixed\<close> gives
  are an integer part, a point, and exactly that many decimals.
\<close>

lemma fixedDigits_shape:
  assumes "0 < f"
  shows "\<exists>ip fp. fixedDigits a f = ip @ ''.'' @ fp \<and> ip \<noteq> [] \<and> length fp = f"
proof -
  define m where "m = decimal \<lfloor>a * 10 ^ f + 1 / 2\<rfloor>"
  define z where "z = (if length m \<le> f then replicate (f + 1 - length m) CHR ''0'' @ m else m)"
  have len: "f < length z" by (simp add: z_def)
  have eq: "fixedDigits a f = take (length z - f) z @ ''.'' @ drop (length z - f) z"
    using assms by (simp add: fixedDigits_def Let_def m_def z_def)
  have "take (length z - f) z \<noteq> []" using len by auto
  moreover have "length (drop (length z - f) z) = f" using len by simp
  ultimately show ?thesis using eq by blast
qed

subsection \<open>Rendering and the loaded arrays (claim C4)\<close>

text \<open>
  Claim C4, where the file departs from it. Under the source \<open>all\<close> the rendering of the
  experiments sorts the array of the state itself: loaded in the order E2, E10, E1, the
  state holds E1, E2, E10 afterwards. Under the filter \<open>all\<close> the rendering of the
  recommendations does the same to the recommendations.
\<close>

theorem rendering_sorts_state_in_place:
  "map exp_id (experiments mixedState) = [''E2'', ''E10'', ''E1''] \<and>
   map exp_id (experiments (fst (outcome (updateExperimentsTable noText (mixedState, blankPage))))) =
     [''E1'', ''E2'', ''E10''] \<and>
   map rec_id (recommendations mixedState) = [''R1'', ''R2'', ''R3'', ''R4''] \<and>
   map rec_id (recommendations (fst (outcome
      (updateRecommendations noText (mixedState\<lparr>currentFilter := ''all''\<rparr>, blankPage))))) =
     [''R4'', ''R3'', ''R2'', ''R1'']"
proof -
  have small: "\<forall>e \<in> set (experiments mixedState). idInteger e < 2 ^ 53"
    by (simp add: mixedState_def idInteger_sample digits_eval)
  have e: "map exp_id (js_sort cmpExp (experiments mixedState)) = [''E1'', ''E2'', ''E10'']"
    unfolding js_sort_cmpExp_small [OF small]
    by (simp add: mixedState_def idInteger_sample digits_eval sampleExperiment_fields)
  have src: "currentSource mixedState = ''all''"
    by (simp add: mixedState_def)
  have r: "map rec_id (js_sort cmpRec (recommendations mixedState)) = [''R4'', ''R3'', ''R2'', ''R1'']"
    by (simp add: mixedState_def js_sort_def sortCompare_cmpRec sampleRecommendation_fields)
  show ?thesis
    using e r
    by (simp add: updateExperimentsTable_eq updateRecommendations_eq afterExperiments_def
        afterRecommendations_def sortedExperiments_def sortedRecommendations_def
        filteredExperiments_def filteredRecommendations_def src)
      (simp add: mixedState_def sampleExperiment_fields sampleRecommendation_fields)
qed

subsection \<open>Loading (claim C5)\<close>

text \<open>
  Claim C5, where the file departs from it. The two arrays are committed one after the
  other (lines 47 and 48), and the read of a key of \<open>null\<close> throws. When both responses
  are successful and the recommendations document is the JSON value \<open>null\<close>, the
  experiments are committed, the read on line 48 throws, and \<open>loadData\<close> ends in
  \<open>showError\<close>: both containers show the error fragment while the state holds the new
  experiments beside the old recommendations, and \<open>isLoading\<close> is as it was.
\<close>

theorem load_commits_before_throw:
  "loadData tostr (Response True (Json (JsonDoc (Some es)))) (Response True (Json JsonNull)) (st, d) =
     (st\<lparr>experiments := es\<rparr>,
      d\<lparr>recommendations_list := ErrorFragment loadMessage,
        experiments_tbody := ErrorFragment loadMessage\<rparr>)"
  by (simp add: loadData_def showError_def)

text \<open>
  An instance: the fixture's experiments beside a \<open>null\<close> document, from the state the
  file starts with.
\<close>

theorem load_commits_before_throw_sample:
  "experiments initial_state = [] \<and>
   map exp_id (experiments (fst (loadData noText
      (Response True (Json (JsonDoc (Some (experiments fixtureState)))))
      (Response True (Json JsonNull)) (initial_state, blankPage)))) = [''E1'', ''E2'', ''E3''] \<and>
   recommendations (fst (loadData noText
      (Response True (Json (JsonDoc (Some (experiments fixtureState)))))
      (Response True (Json JsonNull)) (initial_state, blankPage))) = [] \<and>
   isLoading (fst (loadData noText
      (Response True (Json (JsonDoc (Some (experiments fixtureState)))))
      (Response True (Json JsonNull)) (initial_state, blankPage))) = True \<and>
   snd (loadData noText
      (Response True (Json (JsonDoc (Some (experiments fixtureState)))))
      (Response True (Json JsonNull)) (initial_state, blankPage)) =
     blankPage\<lparr>recommendations_list := ErrorFragment loadMessage,
               experiments_tbody := ErrorFragment loadMessage\<rparr>"
  using load_commits_before_throw [of noText "experiments fixtureState" initial_state blankPage]
  by (simp add: initial_state_def fixtureState_def sampleExperiment_fields)

text \<open>
  With the experiments document \<open>null\<close> the read on line 47 throws before anything is
  committed.
\<close>

lemma loadData_null_experiments:
  "loadData tostr (Response True (Json JsonNull)) (Response True (Json recData)) (st, d) =
     (st, d\<lparr>recommendations_list := ErrorFragment loadMessage,
            experiments_tbody := ErrorFragment loadMessage\<rparr>)"
  by (simp add: loadData_def showError_def)

text \<open>
  What does hold of the claim. When one of the two fetches is rejected, or its response
  is not successful, or its body is no JSON, \<open>loadData\<close> leaves the state as it was and
  puts the error fragment in both containers. When both responses are successful and hold
  JSON values other than \<open>null\<close>, the arrays read are committed (up to the order the
  rendering gives them), a missing key counting as the empty array, \<open>isLoading\<close> is
  cleared, and neither container shows the error fragment.
\<close>

lemma load_fails_as_unit:
  "(failedFetch expResponse \<or> failedFetch recResponse \<longrightarrow>
      loadData tostr expResponse recResponse (st, d) =
        (st, d\<lparr>recommendations_list := ErrorFragment loadMessage,
               experiments_tbody := ErrorFragment loadMessage\<rparr>)) \<and>
   (let (st', d') =
          loadData tostr (Response True (Json (JsonDoc es))) (Response True (Json (JsonDoc rs)))
            (st, d)
    in mset (experiments st') = mset (case es of None \<Rightarrow> [] | Some xs \<Rightarrow> xs) \<and>
       mset (recommendations st') = mset (case rs of None \<Rightarrow> [] | Some xs \<Rightarrow> xs) \<and>
       (es = None \<longrightarrow> experiments st' = []) \<and>
       (rs = None \<longrightarrow> recommendations st' = []) \<and>
       isLoading st' = False \<and>
       \<not> isError (recommendations_list d') \<and> \<not> isError (experiments_tbody d'))"
proof -
  define st2 where "st2 = st\<lparr>experiments := (case es of None \<Rightarrow> [] | Some xs \<Rightarrow> xs),
      recommendations := (case rs of None \<Rightarrow> [] | Some xs \<Rightarrow> xs), isLoading := False\<rparr>"
  have fields: "experiments st2 = (case es of None \<Rightarrow> [] | Some xs \<Rightarrow> xs)"
    "recommendations st2 = (case rs of None \<Rightarrow> [] | Some xs \<Rightarrow> xs)" "isLoading st2 = False"
    by (simp_all add: st2_def)
  have ok: "loadData tostr (Response True (Json (JsonDoc es))) (Response True (Json (JsonDoc rs)))
      (st, d) =
      updateBadges
       (afterExperiments (afterRecommendations st2),
        (snd (updateStats (st2, d)))
          \<lparr>recommendations_list := recommendationsFragment tostr st2,
           experiments_tbody := experimentsFragment tostr st2\<rparr>)"
    by (simp add: loadData_success updateUI_eq st2_def)
  have e: "mset (experiments (afterExperiments (afterRecommendations st2))) =
      mset (case es of None \<Rightarrow> [] | Some xs \<Rightarrow> xs)"
    by (simp add: mset_afterExperiments afterRecommendations_fields fields)
  have r: "mset (recommendations (afterExperiments (afterRecommendations st2))) =
      mset (case rs of None \<Rightarrow> [] | Some xs \<Rightarrow> xs)"
    by (simp add: afterExperiments_fields mset_afterRecommendations fields)
  have e0: "es = None \<longrightarrow> experiments (afterExperiments (afterRecommendations st2)) = []"
    using e by auto
  have r0: "rs = None \<longrightarrow> recommendations (afterExperiments (afterRecommendations st2)) = []"
    using r by auto
  have failed: "failedFetch expResponse \<or> failedFetch recResponse \<longrightarrow>
      loadData tostr expResponse recResponse (st, d) =
        (st, d\<lparr>recommendations_list := ErrorFragment loadMessage,
               experiments_tbody := ErrorFragment loadMessage\<rparr>)"
    by (simp add: loadData_failed showError_def)
  show ?thesis
    unfolding ok
    using failed e r e0 r0
    by (simp add: updateBadges_def Let_def afterExperiments_fields afterRecommendations_fields
        fields not_isError_fragments)
qed

text \<open>
  Instances: a response that is not successful beside a good one, and two documents
  without the keys.
\<close>

lemma load_fails_as_unit_sample:
  "failedFetch (Response False (Json (JsonDoc (Some (recommendations fixtureState))))) \<and>
   loadData noText (Response True (Json (JsonDoc (Some (experiments fixtureState)))))
     (Response False (Json (JsonDoc (Some (recommendations fixtureState)))))
     (initial_state, blankPage) =
     (initial_state,
      blankPage\<lparr>recommendations_list := ErrorFragment loadMessage,
                experiments_tbody := ErrorFragment loadMessage\<rparr>) \<and>
   fst (loadData noText (Response True (Json (JsonDoc None))) (Response True (Json (JsonDoc None)))
     (initial_state, blankPage)) = initial_state\<lparr>isLoading := False\<rparr> \<and>
   recommendations_list
     (snd (loadData noText (Response True (Json (JsonDoc None))) (Response True (Json (JsonDoc None)))
        (initial_state, blankPage))) = EmptyState ''No pending recommendations found.''"
proof -
  have f: "failedFetch (Response False (Json (JsonDoc (Some (recommendations fixtureState)))))"
    by (simp add: failedFetch_def)
  have empty: "loadData noText (Response True (Json (JsonDoc None)))
      (Response True (Json (JsonDoc None))) (initial_state, blankPage) =
      outcome (updateUI noText (initial_state\<lparr>isLoading := False\<rparr>, blankPage))"
    by (simp add: loadData_success initial_state_def)
  have shown: "sortedRecommendations (initial_state\<lparr>isLoading := False\<rparr>) = []"
    "sortedExperiments (initial_state\<lparr>isLoading := False\<rparr>) = []"
    by (simp_all add: sortedRecommendations_def filteredRecommendations_def sortedExperiments_def
        filteredExperiments_def js_sort_def initial_state_def)
  have after: "afterExperiments (afterRecommendations (initial_state\<lparr>isLoading := False\<rparr>)) =
      initial_state\<lparr>isLoading := False\<rparr>"
    by (simp add: afterExperiments_def afterRecommendations_def initial_state_def
        sortedExperiments_def filteredExperiments_def js_sort_def)
  have cf: "currentFilter (initial_state\<lparr>isLoading := False\<rparr>) = ''pending''"
    by (simp add: initial_state_def)
  have st: "fst (loadData noText (Response True (Json (JsonDoc None)))
      (Response True (Json (JsonDoc None))) (initial_state, blankPage)) =
      initial_state\<lparr>isLoading := False\<rparr>"
    by (simp add: empty updateUI_eq after updateBadges_def Let_def)
  have view: "recommendations_list (snd (loadData noText (Response True (Json (JsonDoc None)))
      (Response True (Json (JsonDoc None))) (initial_state, blankPage))) =
      EmptyState ''No pending recommendations found.''"
    by (simp add: empty updateUI_eq updateBadges_def updateStats_def Let_def
        recommendationsFragment_def shown recommendationsEmptyText_def cf)
  show ?thesis
    using f st view
      load_fails_as_unit [of "Response True (Json (JsonDoc (Some (experiments fixtureState))))"
        "Response False (Json (JsonDoc (Some (recommendations fixtureState))))"
        noText initial_state blankPage None None]
    by simp
qed

subsection \<open>Statistics and badges (claim C6)\<close>

text \<open>
  Claim C6. For every state and page, rendering everything ends normally and leaves: in
  the total the number of experiments; in the pending and the completed statistic, and in
  the pending, completed and skipped badge, the number of recommendations of that status;
  in the breakdown the numbers of experiments whose source is imported, recommendation and
  manual, in this order, with a slash between them. (The numbers are counted on the state
  as loaded: the sort in place, between the statistics and the badges, keeps them.)
\<close>

theorem stats_and_badges:
  "let d' = snd (outcome (updateUI tostr (st, d)));
       withStatus = (\<lambda>s. textOf (length (filter (\<lambda>r. status r = s) (recommendations st))));
       fromSource = (\<lambda>s. textOf (length (filter (\<lambda>e. source e = s) (experiments st))))
   in (\<exists>st'. updateUI tostr (st, d) = Done (st', d')) \<and>
      total_experiments d' = textOf (length (experiments st)) \<and>
      pending_count d' = withStatus ''pending'' \<and>
      completed_count d' = withStatus ''completed'' \<and>
      model_accuracy d' =
        fromSource ''imported'' @ ''/'' @ fromSource ''recommendation'' @ ''/'' @ fromSource ''manual'' \<and>
      pending_badge d' = withStatus ''pending'' \<and>
      completed_badge d' = withStatus ''completed'' \<and>
      skipped_badge d' = withStatus ''skipped''"
  by (simp add: updateUI_eq updateBadges_def updateStats_def Let_def afterExperiments_fields
      count_afterRecommendations)

text \<open>
  The fixture of the claim: three experiments, one of each source, and three
  recommendations, one of each status, give 3, 1, 1, the breakdown 1/1/1, and 1 in each
  badge.
\<close>

theorem stats_and_badges_fixture:
  "let d' = snd (outcome (updateUI noText (fixtureState, blankPage)))
   in total_experiments d' = ''3'' \<and> pending_count d' = ''1'' \<and> completed_count d' = ''1'' \<and>
      model_accuracy d' = ''1/1/1'' \<and>
      pending_badge d' = ''1'' \<and> completed_badge d' = ''1'' \<and> skipped_badge d' = ''1''"
  using stats_and_badges [of noText fixtureState blankPage]
  by (simp add: Let_def fixtureState_def sampleExperiment_def sampleRecommendation_def textOf_small)

subsection \<open>The filter tabs (claim C7)\<close>

text \<open>
  Claim C7, where the file departs from it. A click on the recommendation tab \<open>all\<close>
  sets \<open>currentFilter\<close> and, through the rendering it starts, sorts the array of
  recommendations of the state in place: loaded in the order R1, R2, R3, R4, the state
  holds R4, R3, R2, R1 after the click. A click on the source tab \<open>all\<close> does the same to
  the experiments. This is the sharing of the array of claim C4, met from the click
  handlers.
\<close>

theorem tab_click_sorts_state_in_place:
  "map rec_id (recommendations mixedState) = [''R1'', ''R2'', ''R3'', ''R4''] \<and>
   currentFilter (fst (outcome (clickFilterTab noText ''all'' (mixedState, blankPage)))) = ''all'' \<and>
   map rec_id (recommendations
      (fst (outcome (clickFilterTab noText ''all'' (mixedState, blankPage))))) =
     [''R4'', ''R3'', ''R2'', ''R1''] \<and>
   map exp_id (experiments (mixedState\<lparr>currentSource := ''manual''\<rparr>)) = [''E2'', ''E10'', ''E1''] \<and>
   currentSource (fst (outcome (clickSourceTab noText ''all''
      (mixedState\<lparr>currentSource := ''manual''\<rparr>, blankPage)))) = ''all'' \<and>
   map exp_id (experiments (fst (outcome (clickSourceTab noText ''all''
      (mixedState\<lparr>currentSource := ''manual''\<rparr>, blankPage))))) =
     [''E1'', ''E2'', ''E10'']"
proof -
  have small: "\<forall>e \<in> set (experiments mixedState). idInteger e < 2 ^ 53"
    by (simp add: mixedState_def idInteger_sample digits_eval)
  have e: "map exp_id (js_sort cmpExp (experiments mixedState)) = [''E1'', ''E2'', ''E10'']"
    unfolding js_sort_cmpExp_small [OF small]
    by (simp add: mixedState_def idInteger_sample digits_eval sampleExperiment_fields)
  have r: "map rec_id (js_sort cmpRec (recommendations mixedState)) = [''R4'', ''R3'', ''R2'', ''R1'']"
    by (simp add: mixedState_def js_sort_def sortCompare_cmpRec sampleRecommendation_fields)
  show ?thesis
    using e r
    by (simp add: clickFilterTab_def clickSourceTab_def updateExperimentsTable_eq
        updateRecommendations_eq afterExperiments_def afterRecommendations_def
        sortedExperiments_def sortedRecommendations_def filteredExperiments_def
        filteredRecommendations_def)
      (simp add: mixedState_def sampleExperiment_fields sampleRecommendation_fields)
qed

text \<open>
  What does hold of the claim. A click on a recommendation filter tab ends normally; it
  sets \<open>currentFilter\<close>, keeps \<open>currentSource\<close>, \<open>isLoading\<close> and the experiments,
  keeps the recommendations (under the filter \<open>all\<close> only up to their order), and on the
  page it changes the recommendations list and the active filter tab only: the experiments
  table, the four statistics and the three badges are as before. A click on a source tab
  does the same with the two sides exchanged.
\<close>

lemma filter_tabs_frame:
  "(let r = clickFilterTab tostr f (st, d); st' = fst (outcome r); d' = snd (outcome r)
    in r = Done (st', d') \<and>
       currentFilter st' = f \<and> currentSource st' = currentSource st \<and>
       isLoading st' = isLoading st \<and> experiments st' = experiments st \<and>
       mset (recommendations st') = mset (recommendations st) \<and>
       (f \<noteq> ''all'' \<longrightarrow> recommendations st' = recommendations st) \<and>
       d' = d\<lparr>active_filter_tab := f,
              recommendations_list := recommendationsFragment tostr (st\<lparr>currentFilter := f\<rparr>)\<rparr> \<and>
       experiments_tbody d' = experiments_tbody d \<and>
       total_experiments d' = total_experiments d \<and> pending_count d' = pending_count d \<and>
       completed_count d' = completed_count d \<and> model_accuracy d' = model_accuracy d \<and>
       pending_badge d' = pending_badge d \<and> completed_badge d' = completed_badge d \<and>
       skipped_badge d' = skipped_badge d) \<and>
   (let r = clickSourceTab tostr s (st, d); st' = fst (outcome r); d' = snd (outcome r)
    in r = Done (st', d') \<and>
       currentSource st' = s \<and> currentFilter st' = currentFilter st \<and>
       isLoading st' = isLoading st \<and> recommendations st' = recommendations st \<and>
       mset (experiments st') = mset (experiments st) \<and>
       (s \<noteq> ''all'' \<longrightarrow> experiments st' = experiments st) \<and>
       d' = d\<lparr>active_source_tab := s,
              experiments_tbody := experimentsFragment tostr (st\<lparr>currentSource := s\<rparr>)\<rparr> \<and>
       recommendations_list d' = recommendations_list d \<and>
       total_experiments d' = total_experiments d \<and> pending_count d' = pending_count d \<and>
       completed_count d' = completed_count d \<and> model_accuracy d' = model_accuracy d \<and>
       pending_badge d' = pending_badge d \<and> completed_badge d' = completed_badge d \<and>
       skipped_badge d' = skipped_badge d)"
proof -
  have a: "mset (recommendations (afterRecommendations (st\<lparr>currentFilter := f\<rparr>))) =
      mset (recommendations st)"
    using mset_afterRecommendations [of "st\<lparr>currentFilter := f\<rparr>"] by simp
  have b: "mset (experiments (afterExperiments (st\<lparr>currentSource := s\<rparr>))) =
      mset (experiments st)"
    using mset_afterExperiments [of "st\<lparr>currentSource := s\<rparr>"] by simp
  have a': "f \<noteq> ''all'' \<longrightarrow>
      recommendations (afterRecommendations (st\<lparr>currentFilter := f\<rparr>)) = recommendations st"
    by (simp add: afterRecommendations_def)
  have b': "s \<noteq> ''all'' \<longrightarrow>
      experiments (afterExperiments (st\<lparr>currentSource := s\<rparr>)) = experiments st"
    by (simp add: afterExperiments_def)
  show ?thesis
    using a' b'
    by (simp add: clickFilterTab_def clickSourceTab_def updateRecommendations_eq
        updateExperimentsTable_eq Let_def afterRecommendations_fields afterExperiments_fields a b)
qed

text \<open>
  An instance on the fixture: a click on the tab \<open>completed\<close> shows the one completed
  recommendation and leaves the table, the statistics and the badges of the blank page as
  they were; a click on the source \<open>manual\<close> shows the one manual experiment and leaves
  the recommendations list.
\<close>

lemma filter_tabs_frame_sample:
  "(let w = outcome (clickFilterTab noText ''completed'' (fixtureState, blankPage))
    in currentFilter (fst w) = ''completed'' \<and> currentSource (fst w) = ''all'' \<and>
       recommendations (fst w) = recommendations fixtureState \<and>
       map card_rec_id (items (recommendations_list (snd w))) = [''R2''] \<and>
       experiments_tbody (snd w) = Markup \<and> pending_badge (snd w) = [] \<and>
       total_experiments (snd w) = []) \<and>
   (let w = outcome (clickSourceTab noText ''manual'' (fixtureState, blankPage))
    in currentSource (fst w) = ''manual'' \<and> currentFilter (fst w) = ''pending'' \<and>
       experiments (fst w) = experiments fixtureState \<and>
       map row_exp_id (items (experiments_tbody (snd w))) = [''E3''] \<and>
       recommendations_list (snd w) = Markup \<and> pending_badge (snd w) = [] \<and>
       total_experiments (snd w) = [])"
proof -
  have r: "sortedRecommendations (fixtureState\<lparr>currentFilter := ''completed''\<rparr>) =
      [sampleRecommendation ''R2'' ''completed'' 1700000100000]"
    by (simp add: sortedRecommendations_def filteredRecommendations_def js_sort_def
        fixtureState_def sampleRecommendation_fields)
  have e: "sortedExperiments (fixtureState\<lparr>currentSource := ''manual''\<rparr>) =
      [sampleExperiment ''E3'' ''manual'']"
    by (simp add: sortedExperiments_def filteredExperiments_def js_sort_def
        fixtureState_def sampleExperiment_fields)
  have f: "currentFilter fixtureState = ''pending''" "currentSource fixtureState = ''all''"
    by (simp_all add: fixtureState_def)
  show ?thesis
    using filter_tabs_frame [of noText "''completed''" fixtureState blankPage "''manual''"]
    by (simp add: Let_def recommendationsFragment_def experimentsFragment_def r e f
        card_rec_id_cardOf row_exp_id_rowOf sampleRecommendation_fields sampleExperiment_fields
        blankPage_def)
qed

subsection \<open>Empty states (claim C8)\<close>

text \<open>
  Claim C8, as amended. When no recommendation passes the filter, the recommendations
  list shows the empty-state fragment whose sentence names the current filter (nothing in
  its place under \<open>all\<close>). When no experiment passes the source filter, the experiments
  table shows the empty-state fragment with one fixed sentence, which does not depend on
  the current source.
\<close>

theorem empty_states:
  "(filteredRecommendations st = [] \<longrightarrow>
      recommendations_list (snd (outcome (updateRecommendations tostr (st, d)))) =
        EmptyState
          (''No '' @ (if currentFilter st = ''all'' then [] else currentFilter st) @
           '' recommendations found.'') \<and>
      sublist (if currentFilter st = ''all'' then [] else currentFilter st)
        (recommendationsEmptyText (currentFilter st))) \<and>
   (filteredExperiments st = [] \<longrightarrow>
      experiments_tbody (snd (outcome (updateExperimentsTable tostr (st, d)))) =
        EmptyState ''No experiments found for the selected source.'')"
proof -
  have "sublist (if currentFilter st = ''all'' then [] else currentFilter st)
      (recommendationsEmptyText (currentFilter st))"
    unfolding recommendationsEmptyText_def by (rule sublist_appendI)
  then show ?thesis
    by (simp add: updateRecommendations_eq updateExperimentsTable_eq recommendationsFragment_def
        experimentsFragment_def sortedRecommendations_Nil sortedExperiments_Nil
        recommendationsEmptyText_def experimentsEmptyText_def)
qed

text \<open>
  An instance of each: a filter and a source that no record has.
\<close>

theorem empty_states_sample:
  "filteredRecommendations (fixtureState\<lparr>currentFilter := ''archived''\<rparr>) = [] \<and>
   filteredExperiments (fixtureState\<lparr>currentSource := ''other''\<rparr>) = [] \<and>
   recommendations_list
     (snd (outcome (updateRecommendations noText
        (fixtureState\<lparr>currentFilter := ''archived''\<rparr>, blankPage)))) =
     EmptyState ''No archived recommendations found.'' \<and>
   experiments_tbody
     (snd (outcome (updateExperimentsTable noText
        (fixtureState\<lparr>currentSource := ''other''\<rparr>, blankPage)))) =
     EmptyState ''No experiments found for the selected source.''"
proof -
  have a: "filteredRecommendations (fixtureState\<lparr>currentFilter := ''archived''\<rparr>) = []"
    by (simp add: filteredRecommendations_def fixtureState_def sampleRecommendation_fields)
  have b: "filteredExperiments (fixtureState\<lparr>currentSource := ''other''\<rparr>) = []"
    by (simp add: filteredExperiments_def fixtureState_def sampleExperiment_fields)
  show ?thesis
    using a b
      empty_states [of "fixtureState\<lparr>currentFilter := ''archived''\<rparr>" noText blankPage]
      empty_states [of "fixtureState\<lparr>currentSource := ''other''\<rparr>" noText blankPage]
    by simp
qed

text \<open>
  The claim as it was stated fails for the experiments: under the source \<open>manual\<close> the
  sentence shown does not contain the word \<open>manual\<close>, and it is the sentence shown
  under the source \<open>imported\<close> too.
\<close>

theorem empty_states_counterexample:
  "experiments_tbody
     (snd (outcome (updateExperimentsTable noText
        (initial_state\<lparr>currentSource := ''manual''\<rparr>, blankPage)))) =
     EmptyState ''No experiments found for the selected source.'' \<and>
   \<not> sublist ''manual'' ''No experiments found for the selected source.'' \<and>
   experiments_tbody
     (snd (outcome (updateExperimentsTable noText
        (initial_state\<lparr>currentSource := ''imported''\<rparr>, blankPage)))) =
   experiments_tbody
     (snd (outcome (updateExperimentsTable noText
        (initial_state\<lparr>currentSource := ''manual''\<rparr>, blankPage))))"
proof -
  have "\<not> sublist ''manual'' ''No experiments found for the selected source.''"
    by code_simp
  then show ?thesis
    by (simp add: updateExperimentsTable_eq experimentsFragment_def sortedExperiments_def
        filteredExperiments_def js_sort_def initial_state_def experimentsEmptyText_def)
qed

subsection \<open>Sorting a sorted list (claim C9)\<close>

text \<open>
  Claim C9. Sorting a list of recommendations that is in descending order of time value
  gives the same list.
\<close>

theorem sort_idempotent:
  "descendingByTimestamp xs \<Longrightarrow> js_sort cmpRec xs = xs"
  by (rule js_sort_sorted_id) (rule descending_sortCompare)

text \<open>
  An instance, with two recommendations of one time value.
\<close>

theorem sort_idempotent_sample:
  "descendingByTimestamp
     [sampleRecommendation ''R4'' ''pending'' 400, sampleRecommendation ''R2'' ''skipped'' 200,
      sampleRecommendation ''R3'' ''pending'' 200, sampleRecommendation ''R1'' ''pending'' 100] \<and>
   js_sort cmpRec
     [sampleRecommendation ''R4'' ''pending'' 400, sampleRecommendation ''R2'' ''skipped'' 200,
      sampleRecommendation ''R3'' ''pending'' 200, sampleRecommendation ''R1'' ''pending'' 100] =
     [sampleRecommendation ''R4'' ''pending'' 400, sampleRecommendation ''R2'' ''skipped'' 200,
      sampleRecommendation ''R3'' ''pending'' 200, sampleRecommendation ''R1'' ''pending'' 100]"
proof -
  have h: "descendingByTimestamp
     [sampleRecommendation ''R4'' ''pending'' 400, sampleRecommendation ''R2'' ''skipped'' 200,
      sampleRecommendation ''R3'' ''pending'' 200, sampleRecommendation ''R1'' ''pending'' 100]"
    by (simp add: descendingByTimestamp_def notOlder_def sampleRecommendation_def)
  show ?thesis using h sort_idempotent [OF h] by simp
qed

subsection \<open>The first render (claim C10)\<close>

text \<open>
  Claim C10. The state the file starts with has the filter \<open>pending\<close> and the source
  \<open>all\<close>; a successful load from it shows the cards of the pending recommendations
  only (most recent first, or the empty-state fragment when none is pending), and the rows
  of all experiments loaded.
\<close>

theorem initial_render:
  "currentFilter initial_state = ''pending'' \<and> currentSource initial_state = ''all'' \<and>
   (let (st', d') =
          loadData tostr (Response True (Json (JsonDoc (Some es))))
            (Response True (Json (JsonDoc (Some rs)))) (initial_state, d);
        pending = js_sort cmpRec (filter (\<lambda>r. status r = ''pending'') rs)
    in recommendations_list d' =
         (if pending = [] then EmptyState (recommendationsEmptyText ''pending'')
          else Items (map (cardOf tostr) pending)) \<and>
       list_all (\<lambda>c. card_status c = ''pending'') (items (recommendations_list d')) \<and>
       experiments_tbody d' =
         (if es = [] then EmptyState experimentsEmptyText
          else Items (map (rowOf tostr) (js_sort cmpExp es))) \<and>
       mset (map row_exp_id (items (experiments_tbody d'))) = mset (map exp_id es))"
proof -
  define st2 where "st2 = initial_state\<lparr>experiments := es, recommendations := rs, isLoading := False\<rparr>"
  have fields: "currentFilter st2 = ''pending''" "currentSource st2 = ''all''"
    "experiments st2 = es" "recommendations st2 = rs"
    by (simp_all add: st2_def initial_state_def)
  have ok: "loadData tostr (Response True (Json (JsonDoc (Some es))))
      (Response True (Json (JsonDoc (Some rs)))) (initial_state, d) =
      updateBadges
       (afterExperiments (afterRecommendations st2),
        (snd (updateStats (st2, d)))
          \<lparr>recommendations_list := recommendationsFragment tostr st2,
           experiments_tbody := experimentsFragment tostr st2\<rparr>)"
    by (simp add: loadData_success updateUI_eq st2_def)
  have recs: "sortedRecommendations st2 = js_sort cmpRec (filter (\<lambda>r. status r = ''pending'') rs)"
    by (simp add: sortedRecommendations_def filteredRecommendations_def fields)
  have exps: "sortedExperiments st2 = js_sort cmpExp es"
    by (simp add: sortedExperiments_def filteredExperiments_def fields)
  have pend: "list_all (\<lambda>c. card_status c = ''pending'') (items (recommendationsFragment tostr st2))"
    by (auto simp: recommendationsFragment_def recs list_all_iff card_status_cardOf set_js_sort)
  have ids: "mset (map row_exp_id (items (experimentsFragment tostr st2))) = mset (map exp_id es)"
  proof -
    have a: "map row_exp_id (items (experimentsFragment tostr st2)) =
        map exp_id (js_sort cmpExp es)"
      by (simp add: experimentsFragment_def exps row_exp_id_rowOf)
    have "mset (map exp_id (js_sort cmpExp es)) = mset (map exp_id es)"
      by (simp add: mset_js_sort)
    then show ?thesis unfolding a .
  qed
  show ?thesis
    unfolding ok
    using pend ids
    by (simp add: initial_state_def updateBadges_def Let_def recommendationsFragment_def
        experimentsFragment_def recs exps fields js_sort_Nil_iff)
qed

text \<open>
  An instance: of the fixture's three recommendations the pending one is shown, and all
  three experiments, one of each source.
\<close>

theorem initial_render_sample:
  "(let (st', d') =
          loadData noText (Response True (Json (JsonDoc (Some (experiments fixtureState)))))
            (Response True (Json (JsonDoc (Some (recommendations fixtureState)))))
            (initial_state, blankPage)
    in map card_rec_id (items (recommendations_list d')) = [''R1''] \<and>
       map row_exp_id (items (experiments_tbody d')) = [''E1'', ''E2'', ''E3''] \<and>
       map row_source (items (experiments_tbody d')) = [''imported'', ''recommendation'', ''manual''])"
proof -
  have p: "js_sort cmpRec (filter (\<lambda>r. status r = ''pending'') (recommendations fixtureState)) =
      [sampleRecommendation ''R1'' ''pending'' 1700000000000]"
    by (simp add: fixtureState_def sampleRecommendation_fields js_sort_def)
  have small: "\<forall>e \<in> set (experiments fixtureState). idInteger e < 2 ^ 53"
    by (simp add: fixtureState_def idInteger_def sampleExperiment_fields digitsValue_def
        stripNonDigits_def isDigit_def)
  have e: "js_sort cmpExp (experiments fixtureState) = experiments fixtureState"
    unfolding js_sort_cmpExp_small [OF small]
    by (simp add: fixtureState_def idInteger_def sampleExperiment_fields digitsValue_def
        stripNonDigits_def isDigit_def)
  have ne: "experiments fixtureState \<noteq> []"
    by (simp add: fixtureState_def)
  show ?thesis
    using initial_render [of noText "experiments fixtureState" "recommendations fixtureState" blankPage]
    unfolding p e
    by (simp add: ne split_beta card_rec_id_cardOf row_exp_id_rowOf row_source_rowOf
        fixtureState_def sampleRecommendation_fields sampleExperiment_fields)
qed

end
